theory Spec2Isabelle
  imports Main
begin

section \<open>JavaScript strings and regular expressions\<close>

text \<open>
  A JavaScript string is modelled as a \<^typ>\<open>string\<close>; each \<^typ>\<open>char\<close> stands for one
  code unit below 256. Column types, comments and directive names are ASCII in practice.
  The character classes below are the ECMAScript ones restricted to that range.
\<close>

text \<open>\<^verbatim>\<open>\s\<close>: tab, line feed, vertical tab, form feed, carriage return, space, no-break space.\<close>

definition isSpace :: "char \<Rightarrow> bool" where
  "isSpace c = (c \<in> set [CHR 0x20, CHR 0x09, CHR 0x0A, CHR 0x0B, CHR 0x0C, CHR 0x0D, CHR 0xA0])"

text \<open>\<^verbatim>\<open>.\<close> without the \<^verbatim>\<open>s\<close> flag: every code unit except the line terminators.\<close>

definition isDot :: "char \<Rightarrow> bool" where
  "isDot c = (c \<noteq> CHR 0x0A \<and> c \<noteq> CHR 0x0D)"

text \<open>\<^verbatim>\<open>\w\<close>: ASCII letters, digits and the underscore.\<close>

definition isWord :: "char \<Rightarrow> bool" where
  "isWord c = (c \<in> set ''abcdefghijklmnopqrstuvwxyzABCDEFGHIJKLMNOPQRSTUVWXYZ0123456789_'')"

text \<open>
  Canonicalize of the \<^verbatim>\<open>i\<close> flag (non-unicode mode): the code unit's upper case, kept only
  when it is a single code unit. Below 256 that clears bit 5 (a shift by 32) of a-z,
  \<open>0x61\<close> to \<open>0x7A\<close>, and of the Latin-1 lower-case letters, \<open>0xE0\<close> to \<open>0xFE\<close>
  without \<open>0xF7\<close>. The bits of \<^const>\<open>Char\<close> come lowest first.
\<close>

fun canon :: "char \<Rightarrow> char" where
  "canon (Char b0 b1 b2 b3 b4 b5 b6 b7) =
     (if b5 \<and> b6 \<and> \<not> b7 \<and> (b0 \<or> b1 \<or> b2 \<or> b3 \<or> b4) \<and> \<not> (b4 \<and> b3 \<and> (b2 \<or> (b1 \<and> b0)))
        then Char b0 b1 b2 b3 b4 False b6 b7
      else if b5 \<and> b6 \<and> b7 \<and> \<not> (b0 \<and> b1 \<and> b2 \<and> b4)
        then Char b0 b1 b2 b3 b4 False b6 b7
      else Char b0 b1 b2 b3 b4 b5 b6 b7)"

text \<open>
  \<^verbatim>\<open>String.prototype.toLowerCase\<close> on code units below 256: sets bit 5 of A-Z, \<open>0x41\<close> to
  \<open>0x5A\<close>, and of the Latin-1 upper-case letters, \<open>0xC0\<close> to \<open>0xDE\<close> without \<open>0xD7\<close>.
\<close>

fun lowerChar :: "char \<Rightarrow> char" where
  "lowerChar (Char b0 b1 b2 b3 b4 b5 b6 b7) =
     (if \<not> b5 \<and> b6 \<and> \<not> b7 \<and> (b0 \<or> b1 \<or> b2 \<or> b3 \<or> b4) \<and> \<not> (b4 \<and> b3 \<and> (b2 \<or> (b1 \<and> b0)))
        then Char b0 b1 b2 b3 b4 True b6 b7
      else if \<not> b5 \<and> b6 \<and> b7 \<and> \<not> (b0 \<and> b1 \<and> b2 \<and> b4)
        then Char b0 b1 b2 b3 b4 True b6 b7
      else Char b0 b1 b2 b3 b4 b5 b6 b7)"

definition toLowerCase :: "string \<Rightarrow> string" where
  "toLowerCase s = map lowerChar s"

text \<open>\<^verbatim>\<open>String.prototype.trim\<close>: white space and line terminators removed at both ends.\<close>

definition trim :: "string \<Rightarrow> string" where
  "trim s = rev (dropWhile isSpace (rev (dropWhile isSpace s)))"

text \<open>\<^verbatim>\<open>String.prototype.split\<close> with a one-character separator.\<close>

fun split :: "char \<Rightarrow> string \<Rightarrow> string list" where
  "split sep [] = [[]]"
| "split sep (c # cs) =
     (if c = sep then [] # split sep cs
      else (case split sep cs of [] \<Rightarrow> [[c]] | w # ws \<Rightarrow> (c # w) # ws))"

text \<open>\<^verbatim>\<open>Array.prototype.join\<close> on strings.\<close>

fun join :: "string \<Rightarrow> string list \<Rightarrow> string" where
  "join sep [] = []"
| "join sep [x] = x"
| "join sep (x # y # ys) = x @ sep @ join sep (y # ys)"

subsection \<open>A backtracking matcher\<close>

text \<open>
  The regular expressions of the source use literals (all with the \<^verbatim>\<open>i\<close> flag), character
  classes, alternation, greedy repetition of a single class, an optional group, capture
  groups and the assertions \<^verbatim>\<open>^\<close>, \<^verbatim>\<open>$\<close>, \<^verbatim>\<open>\b\<close>. The matcher follows ECMAScript's
  backtracking semantics: alternatives are tried left to right, repetition is greedy,
  and the first successful path is the match.
\<close>

datatype rx =
    Eps
  | Chr "char \<Rightarrow> bool"
  | Seq rx rx
  | Alt rx rx
  | Star "char \<Rightarrow> bool"
  | Grp nat rx
  | Bol
  | Eol
  | Wordb

text \<open>
  A matcher state: the consumed input reversed, the remaining input, and the captures.
\<close>

type_synonym mstate = "string \<times> string \<times> (nat \<rightharpoonup> string)"

fun star :: "(char \<Rightarrow> bool) \<Rightarrow> mstate \<Rightarrow> (mstate \<Rightarrow> 'r option) \<Rightarrow> 'r option" where
  "star p (b, [], caps) k = k (b, [], caps)"
| "star p (b, c # cs, caps) k =
     (if p c then
        (case star p (c # b, cs, caps) k of
           Some r \<Rightarrow> Some r
         | None \<Rightarrow> k (b, c # cs, caps))
      else k (b, c # cs, caps))"

definition atBoundary :: "string \<Rightarrow> string \<Rightarrow> bool" where
  "atBoundary b rest =
     ((case b of [] \<Rightarrow> False | c # _ \<Rightarrow> isWord c) \<noteq> (case rest of [] \<Rightarrow> False | c # _ \<Rightarrow> isWord c))"

fun matchRx :: "rx \<Rightarrow> mstate \<Rightarrow> (mstate \<Rightarrow> 'r option) \<Rightarrow> 'r option" where
  "matchRx Eps s k = k s"
| "matchRx (Chr p) (b, rest, caps) k =
     (case rest of [] \<Rightarrow> None | c # cs \<Rightarrow> if p c then k (c # b, cs, caps) else None)"
| "matchRx (Seq r1 r2) s k = matchRx r1 s (\<lambda>s'. matchRx r2 s' k)"
| "matchRx (Alt r1 r2) s k = (case matchRx r1 s k of Some r \<Rightarrow> Some r | None \<Rightarrow> matchRx r2 s k)"
| "matchRx (Star p) s k = star p s k"
| "matchRx (Grp n r) (b, rest, caps) k =
     matchRx r (b, rest, caps)
       (\<lambda>(b', rest', caps'). k (b', rest', caps'(n \<mapsto> rev (take (length b' - length b) b'))))"
| "matchRx Bol (b, rest, caps) k = (if b = [] then k (b, rest, caps) else None)"
| "matchRx Eol (b, rest, caps) k = (if rest = [] then k (b, rest, caps) else None)"
| "matchRx Wordb (b, rest, caps) k = (if atBoundary b rest then k (b, rest, caps) else None)"

text \<open>
  One match: the matched text (group 0) and the captures.
\<close>

record rmatch =
  whole :: string
  groups :: "nat \<rightharpoonup> string"

definition matchAt :: "rx \<Rightarrow> string \<Rightarrow> string \<Rightarrow> rmatch option" where
  "matchAt r b rest =
     matchRx r (b, rest, Map.empty)
       (\<lambda>(b', rest', caps). Some \<lparr>whole = rev (take (length b' - length b) b'), groups = caps\<rparr>)"

text \<open>\<^verbatim>\<open>RegExp.prototype.exec\<close> from a position: the leftmost start at which the pattern matches.\<close>

fun search :: "rx \<Rightarrow> string \<Rightarrow> string \<Rightarrow> rmatch option" where
  "search r b [] = matchAt r b []"
| "search r b (c # cs) =
     (case matchAt r b (c # cs) of Some x \<Rightarrow> Some x | None \<Rightarrow> search r (c # b) cs)"

text \<open>
  \<^verbatim>\<open>String.prototype.matchAll\<close> (and \<^verbatim>\<open>match\<close> with the \<^verbatim>\<open>g\<close> flag): successive matches,
  each search starting where the previous match ended, one code unit further after an
  empty match. \<open>skip\<close> counts the code units of the previous match still to pass.
\<close>

fun scan :: "rx \<Rightarrow> nat \<Rightarrow> string \<Rightarrow> string \<Rightarrow> rmatch list" where
  "scan r (Suc n) b [] = []"
| "scan r (Suc n) b (c # cs) = scan r n (c # b) cs"
| "scan r 0 b [] = (case matchAt r b [] of Some x \<Rightarrow> [x] | None \<Rightarrow> [])"
| "scan r 0 b (c # cs) =
     (case matchAt r b (c # cs) of
        Some x \<Rightarrow> x # scan r (length (whole x) - 1) (c # b) cs
      | None \<Rightarrow> scan r 0 (c # b) cs)"

definition matchAll :: "rx \<Rightarrow> string \<Rightarrow> rmatch list" where
  "matchAll r s = scan r 0 [] s"

definition test :: "rx \<Rightarrow> string \<Rightarrow> bool" where
  "test r s = (search r [] s \<noteq> None)"

text \<open>A literal under the \<^verbatim>\<open>i\<close> flag, an alternation of literals, and \<^verbatim>\<open>x+\<close>.\<close>

definition ci :: "char \<Rightarrow> rx" where
  "ci c = Chr (\<lambda>x. canon x = canon c)"

fun lit :: "string \<Rightarrow> rx" where
  "lit [] = Eps"
| "lit (c # cs) = Seq (ci c) (lit cs)"

fun alts :: "string list \<Rightarrow> rx" where
  "alts [] = Eps"
| "alts [x] = lit x"
| "alts (x # y # ys) = Alt (lit x) (alts (y # ys))"

definition oneOrMore :: "(char \<Rightarrow> bool) \<Rightarrow> rx" where
  "oneOrMore p = Seq (Chr p) (Star p)"

definition opt :: "rx \<Rightarrow> rx" where
  "opt r = Alt r Eps"

fun seqs :: "rx list \<Rightarrow> rx" where
  "seqs [] = Eps"
| "seqs [r] = r"
| "seqs (r # r' # rs) = Seq r (seqs (r' # rs))"

section \<open>Column rows and field definitions\<close>

text \<open>
  One row of \<^verbatim>\<open>SHOW FULL COLUMNS\<close>. \<open>Default\<close> is a string or \<^verbatim>\<open>null\<close>
  (\<^const>\<open>None\<close>). The source's \<^verbatim>\<open>Field\<close> is \<open>Field_col\<close> here.
\<close>

record DatabaseColumnRow =
  Field_col :: string
  Type :: string
  Null :: string
  Key :: string
  Default :: "string option"
  Extra :: string
  Comment :: string

datatype CastType =
    CastJson | CastBigint | CastBoolean | CastInt | CastFloat | CastDate
  | CastSet | CastEnum | CastString

text \<open>The two type options of the settings; each may be unset (\<^verbatim>\<open>Partial<FullSettings>\<close>).\<close>

record FullSettings =
  typeBigIntAsString :: "bool option"
  typeTinyIntOneAsBoolean :: "bool option"

definition DEFAULT_JSON_FIELD_TYPE :: string where
  "DEFAULT_JSON_FIELD_TYPE = ''unknown''"

text \<open>
  The field definition built by \<^verbatim>\<open>parseFieldDefinition\<close> and read by the database
  classes.
\<close>

record FieldDefinition =
  fieldName :: string
  columnName :: string
  columnType :: string
  columnComment :: string
  columnDefault :: "string option"
  columnExtra :: string
  columnKey :: string
  columnNull :: string
  knownMySQLType :: "string option"
  castType :: CastType
  javascriptType :: string
  isPrimaryKey :: bool
  isAutoIncrement :: bool
  isAlwaysGenerated :: bool
  isDefaultGenerated :: bool
  isInvisible :: bool
  isNullable :: bool
  isUnique :: bool
  hasDefault :: bool
  isOmittableInModel :: bool
  isOmittedFromCreateData :: bool
  isOptionalInCreateData :: bool
  isOmittedFromUpdateData :: bool

section \<open>The parser functions (\<^verbatim>\<open>getFieldCastType\<close> and its helpers)\<close>

text \<open>
  \<^verbatim>\<open>getParenthesizedArgs\<close>: the pattern is
  \<^verbatim>\<open>(\s|^)<prefix>\s*\((.*)\)(\s|$)\<close> with the \<^verbatim>\<open>i\<close> flag; the result is group 2 of
  the first match, or the empty string.
\<close>

definition parenthesizedArgsRx :: "string \<Rightarrow> rx" where
  "parenthesizedArgsRx prefix =
     seqs [Grp 1 (Alt (Chr isSpace) Bol), lit prefix, Star isSpace, ci (CHR ''(''),
           Grp 2 (Star isDot), ci (CHR '')''), Grp 3 (Alt (Chr isSpace) Eol)]"

definition getParenthesizedArgs :: "string \<Rightarrow> string \<Rightarrow> string" where
  "getParenthesizedArgs source prefix =
     (case search (parenthesizedArgsRx prefix) [] source of
        None \<Rightarrow> []
      | Some x \<Rightarrow> (case groups x 2 of None \<Rightarrow> [] | Some g \<Rightarrow> g))"

text \<open>
  \<^verbatim>\<open>getMatchAmong\<close> with its default \<^verbatim>\<open>ignoreCase = true\<close> (the only way it is called):
  \<^verbatim>\<open>\b(<choices joined by |>)\b\<close> with the flags \<^verbatim>\<open>gi\<close>; group 1 of every match.
  The choices are type names and stand for themselves in the pattern.
\<close>

definition matchAmongRx :: "string list \<Rightarrow> rx" where
  "matchAmongRx choices = seqs [Wordb, Grp 1 (alts choices), Wordb]"

definition getMatchAmong :: "string \<Rightarrow> string list \<Rightarrow> string list" where
  "getMatchAmong source choices =
     map (\<lambda>x. case groups x 1 of None \<Rightarrow> [] | Some g \<Rightarrow> g)
       (matchAll (matchAmongRx choices) source)"

text \<open>
  \<^verbatim>\<open>hasColumnCommentAnnotation\<close>: \<^verbatim>\<open>(\s|^)@<annotation>(\s|\(|$)\<close> with the \<^verbatim>\<open>i\<close> flag.
\<close>

definition commentAnnotationRx :: "string \<Rightarrow> rx" where
  "commentAnnotationRx annotation =
     seqs [Grp 1 (Alt (Chr isSpace) Bol), ci (CHR ''@''), lit annotation,
           Grp 2 (Alt (Chr isSpace) (Alt (ci (CHR ''('')) Eol))]"

definition hasColumnCommentAnnotation :: "string \<Rightarrow> DatabaseColumnRow \<Rightarrow> bool" where
  "hasColumnCommentAnnotation annotation col = test (commentAnnotationRx annotation) (Comment col)"

text \<open>
  \<^verbatim>\<open>getFieldKnownMySQLType\<close>. The list \<^verbatim>\<open>KNOWN_MYSQL_TYPES\<close> is declared in a file that is
  not part of the sources at hand, so it is the parameter \<open>types\<close>.
\<close>

definition getFieldKnownMySQLType :: "string list \<Rightarrow> DatabaseColumnRow \<Rightarrow> string option" where
  "getFieldKnownMySQLType types column =
     (case getMatchAmong (Type column) types of
        [] \<Rightarrow> None
      | f # _ \<Rightarrow> Some (toLowerCase f))"

text \<open>
  \<^verbatim>\<open>getFieldCastType\<close>. The first test, \<^verbatim>\<open>!knownMySQLType\<close>, holds for \<^verbatim>\<open>null\<close> and for
  the empty string.
\<close>

definition getFieldCastType ::
  "DatabaseColumnRow \<Rightarrow> string option \<Rightarrow> FullSettings \<Rightarrow> CastType" where
  "getFieldCastType col known settings =
     (case known of
        None \<Rightarrow> CastString
      | Some t \<Rightarrow>
          if t = [] then CastString
          else if ''json'' = t then CastJson
          else if ''bigint'' = t then
            (if typeBigIntAsString settings = Some False then CastBigint
             else if hasColumnCommentAnnotation ''bigint'' col then CastBigint
             else CastString)
          else if t = ''tinyint'' \<and> trim (getParenthesizedArgs (Type col) t) = ''1'' then
            (if typeTinyIntOneAsBoolean settings = Some False then CastInt else CastBoolean)
          else if t \<in> set [''tinyint'', ''int'', ''integer'', ''smallint'', ''mediumint''] then CastInt
          else if t \<in> set [''float'', ''double'', ''real'', ''decimal'', ''numeric''] then CastFloat
          else if t \<in> set [''date'', ''datetime'', ''timestamp''] then CastDate
          else if t = ''set'' then CastSet
          else if t = ''enum'' then CastEnum
          else if t = ''year'' then CastInt
          else CastString)"

text \<open>The element list of a \<^verbatim>\<open>set(...)\<close> or \<^verbatim>\<open>enum(...)\<close> definition, joined by \<^verbatim>\<open>|\<close>.\<close>

definition definitionLiterals :: "string \<Rightarrow> string \<Rightarrow> string" where
  "definitionLiterals tp prefix =
     join ''|'' (filter (\<lambda>s. length s > 0) (map trim (split (CHR '','') (getParenthesizedArgs tp prefix))))"

definition getFieldJavascriptType :: "DatabaseColumnRow \<Rightarrow> CastType \<Rightarrow> string" where
  "getFieldJavascriptType col ct =
     (if ct = CastJson then
        (if hasColumnCommentAnnotation ''json'' col
         then getParenthesizedArgs (Comment col) ''@json''
         else DEFAULT_JSON_FIELD_TYPE)
      else if ct = CastSet then
        (let strings = definitionLiterals (Type col) ''set''
         in if length strings > 0 then ''Set<'' @ strings @ ''>'' else ''Set<string>'')
      else if ct = CastEnum then
        (let strings = definitionLiterals (Type col) ''enum''
         in if length strings > 0 then strings else ''string'')
      else (case ct of
              CastBigint \<Rightarrow> ''bigint''
            | CastDate \<Rightarrow> ''Date''
            | CastBoolean \<Rightarrow> ''boolean''
            | CastInt \<Rightarrow> ''number''
            | CastFloat \<Rightarrow> ''number''
            | _ \<Rightarrow> ''string''))"

text \<open>
  \<^verbatim>\<open>parseFieldDefinition\<close>. \<open>camelCase\<close> is lodash's function, a parameter here.
\<close>

definition parseFieldDefinition ::
  "(string \<Rightarrow> string) \<Rightarrow> string list \<Rightarrow> DatabaseColumnRow \<Rightarrow> FullSettings \<Rightarrow> FieldDefinition" where
  "parseFieldDefinition camelCase types column settings =
     (let known = getFieldKnownMySQLType types column;
          ct = getFieldCastType column known settings;
          jt = getFieldJavascriptType column ct;
          pk = (Key column = ''PRI'');
          ai = test (seqs [Wordb, lit ''auto_increment'', Wordb]) (Extra column);
          uq = (Key column = ''UNI'');
          ag = test (seqs [Wordb, Grp 1 (alts [''VIRTUAL'', ''STORED'']), lit '' GENERATED'', Wordb])
                 (Extra column);
          dg = test (seqs [Wordb, lit ''DEFAULT_GENERATED'', Wordb]) (Extra column);
          inv = test (seqs [Wordb, lit ''INVISIBLE'', Wordb]) (Extra column);
          nl = (Null column = ''YES'');
          hd = (Default column \<noteq> None \<or> (nl \<and> Default column = None))
      in \<lparr>fieldName = camelCase (Field_col column),
          columnName = Field_col column,
          columnType = Type column,
          columnComment = Comment column,
          columnDefault = Default column,
          columnExtra = Extra column,
          columnKey = Key column,
          columnNull = Null column,
          knownMySQLType = known,
          castType = ct,
          javascriptType = jt,
          isPrimaryKey = pk,
          isAutoIncrement = ai,
          isAlwaysGenerated = ag,
          isDefaultGenerated = dg,
          isInvisible = inv,
          isNullable = nl,
          isUnique = uq,
          hasDefault = hd,
          isOmittableInModel = inv,
          isOmittedFromCreateData = ag,
          isOptionalInCreateData = (ai \<or> hd),
          isOmittedFromUpdateData = (pk \<or> ag)\<rparr>)"

section \<open>The \<^verbatim>\<open>Field\<close> class\<close>

text \<open>
  The class wraps one column row; every getter is a function of the row. The getters
  carry the prefix \<open>Field_\<close>. The list \<^verbatim>\<open>MYSQL_TYPES\<close> is declared in a file that is not
  part of the sources at hand, so it is the parameter \<open>types\<close>.
\<close>

record ParsedAnnotation =
  fullAnnotation :: string
  annotation :: string
  typeArgument :: "string option"

text \<open>
  \<^verbatim>\<open>mysqlBaseType\<close>: \<^verbatim>\<open>\b(<types joined by |>)\b\<close> with the flags \<^verbatim>\<open>gi\<close>;
  \<^verbatim>\<open>String.prototype.match\<close> then returns the matched texts, or \<^verbatim>\<open>null\<close> when there is
  none, and the getter lower-cases the first.
\<close>

definition Field_mysqlBaseType :: "string list \<Rightarrow> DatabaseColumnRow \<Rightarrow> string option" where
  "Field_mysqlBaseType types column =
     (case matchAll (seqs [Wordb, Grp 1 (alts types), Wordb]) (Type column) of
        [] \<Rightarrow> None
      | x # _ \<Rightarrow> Some (toLowerCase (whole x)))"

text \<open>
  \<^verbatim>\<open>typeAnnotations\<close>: every match of
  \<^verbatim>\<open>(?:^|\s+)@(bigint|enum|set|json)(?:\((.*)\))?\<close> (flags \<^verbatim>\<open>gi\<close>) in the comment.
\<close>

definition typeAnnotationsRx :: rx where
  "typeAnnotationsRx =
     seqs [Alt Bol (oneOrMore isSpace), ci (CHR ''@''),
           Grp 1 (alts [''bigint'', ''enum'', ''set'', ''json'']),
           opt (seqs [ci (CHR ''(''), Grp 2 (Star isDot), ci (CHR '')'')])]"

definition Field_typeAnnotations :: "DatabaseColumnRow \<Rightarrow> ParsedAnnotation list" where
  "Field_typeAnnotations column =
     map (\<lambda>r. \<lparr>fullAnnotation = trim (whole r),
               annotation = toLowerCase (case groups r 1 of None \<Rightarrow> [] | Some g \<Rightarrow> g),
               typeArgument = groups r 2\<rparr>)
       (matchAll typeAnnotationsRx (Comment column))"

definition Field_bigIntAnnotation :: "DatabaseColumnRow \<Rightarrow> ParsedAnnotation option" where
  "Field_bigIntAnnotation column = find (\<lambda>a. annotation a = ''bigint'') (Field_typeAnnotations column)"

definition Field_setAnnotation :: "DatabaseColumnRow \<Rightarrow> ParsedAnnotation option" where
  "Field_setAnnotation column = find (\<lambda>a. annotation a = ''set'') (Field_typeAnnotations column)"

text \<open>
  \<^verbatim>\<open>enumAnnotation\<close> and \<^verbatim>\<open>jsonAnnotation\<close>: the first annotation of the kind, unless
  its argument is missing, empty or blank.
\<close>

definition requiresArgument :: "ParsedAnnotation option \<Rightarrow> ParsedAnnotation option" where
  "requiresArgument found =
     (case found of
        None \<Rightarrow> None
      | Some a \<Rightarrow>
          (case typeArgument a of
             None \<Rightarrow> None
           | Some arg \<Rightarrow> if arg = [] \<or> length (trim arg) = 0 then None else Some a))"

definition Field_enumAnnotation :: "DatabaseColumnRow \<Rightarrow> ParsedAnnotation option" where
  "Field_enumAnnotation column =
     requiresArgument (find (\<lambda>a. annotation a = ''enum'') (Field_typeAnnotations column))"

definition Field_jsonAnnotation :: "DatabaseColumnRow \<Rightarrow> ParsedAnnotation option" where
  "Field_jsonAnnotation column =
     requiresArgument (find (\<lambda>a. annotation a = ''json'') (Field_typeAnnotations column))"

definition Field_isTinyIntOne :: "string list \<Rightarrow> DatabaseColumnRow \<Rightarrow> bool" where
  "Field_isTinyIntOne types column =
     (Some ''tinyint'' = Field_mysqlBaseType types column \<and>
      trim (getParenthesizedArgs (Type column) ''tinyint'') = ''1'')"

definition Field_castType :: "string list \<Rightarrow> DatabaseColumnRow \<Rightarrow> CastType" where
  "Field_castType types column =
     (let base = Field_mysqlBaseType types column in
      if Some ''json'' = base then CastJson
      else if Some ''bigint'' = base then
        (if Field_bigIntAnnotation column \<noteq> None then CastBigint else CastString)
      else if Field_isTinyIntOne types column then CastBoolean
      else if Some ''bool'' = base \<or> Some ''boolean'' = base then CastBoolean
      else if Some ''set'' = base then
        (if Field_setAnnotation column \<noteq> None then CastSet else CastString)
      else if Some ''enum'' = base then CastString
      else if base \<in> Some ` set [''tinyint'', ''int'', ''integer'', ''smallint'', ''mediumint'', ''year'']
        then CastInt
      else if base \<in> Some ` set [''float'', ''double'', ''decimal'', ''numeric'', ''real'']
        then CastFloat
      else if base \<in> Some ` set [''date'', ''datetime'', ''timestamp''] then CastDate
      else CastString)"

definition Field_javascriptType :: "string list \<Rightarrow> DatabaseColumnRow \<Rightarrow> string" where
  "Field_javascriptType types column =
     (let ct = Field_castType types column in
      if CastJson = ct then
        (case Field_jsonAnnotation column of
           Some a \<Rightarrow> trim (case typeArgument a of None \<Rightarrow> [] | Some arg \<Rightarrow> arg)
         | None \<Rightarrow> DEFAULT_JSON_FIELD_TYPE)
      else if CastSet = ct then
        (let derived =
               (let strings = definitionLiterals (Type column) ''set''
                in if length strings > 0 then ''Set<'' @ strings @ ''>'' else ''Set<string>'')
         in case Field_setAnnotation column of
              None \<Rightarrow> derived
            | Some a \<Rightarrow>
                (case typeArgument a of
                   None \<Rightarrow> derived
                 | Some arg \<Rightarrow>
                     if arg \<noteq> [] \<and> length (trim arg) > 0 then ''Set<'' @ trim arg @ ''>''
                     else derived))
      else if Some ''enum'' = Field_mysqlBaseType types column then
        (case Field_enumAnnotation column of
           Some a \<Rightarrow> (case typeArgument a of None \<Rightarrow> [] | Some arg \<Rightarrow> arg)
         | None \<Rightarrow>
             (let strings = definitionLiterals (Type column) ''enum''
              in if length strings > 0 then strings else ''string''))
      else (case ct of
              CastBigint \<Rightarrow> ''bigint''
            | CastBoolean \<Rightarrow> ''boolean''
            | CastDate \<Rightarrow> ''Date''
            | CastFloat \<Rightarrow> ''number''
            | CastInt \<Rightarrow> ''number''
            | _ \<Rightarrow> ''string''))"

section \<open>The database classes\<close>

subsection \<open>Values, statements and errors\<close>

text \<open>
  The JavaScript values that travel as statement parameters and as model data. A number
  is kept as an integer here; a \<^verbatim>\<open>Set\<close> of strings is its members in insertion order.
\<close>

datatype jsval =
    JUndefined
  | JNull
  | JBool bool
  | JNumber int
  | JBigInt int
  | JString string
  | JSet "string list"
  | JArray "jsval list"
  | JObject "(string \<times> jsval) list"

text \<open>
  What a JavaScript \<^verbatim>\<open>throw\<close> carries: an instance of \<^verbatim>\<open>Error\<close> with its message, or any
  other value.
\<close>

datatype thrown = Error string | NonError jsval

text \<open>
  A statement of the \<^verbatim>\<open>sql-template-tag\<close> library: raw text interleaved with bound
  values. \<^verbatim>\<open>query.sql\<close> writes a \<^verbatim>\<open>?\<close> for every value, \<^verbatim>\<open>query.values\<close> lists them.
\<close>

datatype frag = Text string | Value jsval

type_synonym Sql = "frag list"

definition sqlText :: "Sql \<Rightarrow> string" where
  "sqlText q = concat (map (\<lambda>f. case f of Text t \<Rightarrow> t | Value _ \<Rightarrow> ''?'') q)"

definition sqlValues :: "Sql \<Rightarrow> jsval list" where
  "sqlValues q = concat (map (\<lambda>f. case f of Text _ \<Rightarrow> [] | Value v \<Rightarrow> [v]) q)"

definition raw :: "string \<Rightarrow> Sql" where
  "raw t = [Text t]"

definition empty_sql :: Sql where
  "empty_sql = raw []"

text \<open>The library's \<^verbatim>\<open>join\<close> throws a \<^verbatim>\<open>TypeError\<close> on an empty array.\<close>

fun joinSep :: "string \<Rightarrow> Sql list \<Rightarrow> Sql" where
  "joinSep sep [] = []"
| "joinSep sep [q] = q"
| "joinSep sep (q # q' # qs) = q @ [Text sep] @ joinSep sep (q' # qs)"

definition joinSql :: "Sql list \<Rightarrow> thrown + Sql" where
  "joinSql qs =
     (if qs = []
      then Inl (Error ''Expected `join([])` to be called with an array of multiple elements, but got an empty array'')
      else Inr (joinSep '','' qs))"

text \<open>Running a step on every element, stopping at the first one that throws.\<close>

fun mapE :: "('a \<Rightarrow> thrown + 'b) \<Rightarrow> 'a list \<Rightarrow> thrown + 'b list" where
  "mapE f [] = Inr []"
| "mapE f (x # xs) =
     (case f x of
        Inl e \<Rightarrow> Inl e
      | Inr y \<Rightarrow> (case mapE f xs of Inl e \<Rightarrow> Inl e | Inr ys \<Rightarrow> Inr (y # ys)))"

subsection \<open>Schema, transport and hooks\<close>

record ModelDefinition =
  modelName :: string
  tableName :: string
  model_fields :: "FieldDefinition list"

type_synonym CustomModelCast = "(string \<times> CastType) list"

record SchemaDefinition =
  models :: "ModelDefinition list"
  cast :: CustomModelCast

text \<open>
  The driver's result: the rows, typed as the caller's type argument says, and the
  generated insert id.
\<close>

record 'row ExecutedQuery =
  rows :: "'row list"
  insertId :: string

text \<open>
  One call of the driver's \<^verbatim>\<open>execute\<close>: the statement text, the bound values and the
  per-call cast override handed to \<^verbatim>\<open>createCastFunction\<close>.
\<close>

record request =
  req_sql :: string
  req_values :: "jsval list"
  req_cast :: "CustomModelCast option"

text \<open>
  The connection or transaction: it answers a request with a result or throws, and moves
  the state \<open>'c\<close> of the database.
\<close>

type_synonym ('row, 'c) Connection = "request \<Rightarrow> 'c \<Rightarrow> (thrown + 'row ExecutedQuery) \<times> 'c"

record ExecuteError =
  message :: string
  originalError :: thrown
  query :: Sql

definition newExecuteError :: "thrown \<Rightarrow> Sql \<Rightarrow> ExecuteError" where
  "newExecuteError err q =
     \<lparr>message = (case err of Error msg \<Rightarrow> msg | NonError _ \<Rightarrow> ''unkown error''),
      originalError = err, query = q\<rparr>"

text \<open>
  The injected hooks act on a log \<open>'l\<close> of their own and return normally, and so does
  \<^verbatim>\<open>createCastFunction\<close>, whose file is not part of the sources at hand. The round-trip
  time handed to the performance hook is wall-clock time and is left out.
\<close>

record ('row, 'l) DbLoggingOptions =
  performanceLogger :: "('row ExecutedQuery \<Rightarrow> 'l \<Rightarrow> 'l) option"
  errorLogger :: "(ExecuteError \<Rightarrow> 'l \<Rightarrow> 'l) option"

text \<open>
  The world an operation runs in: the database behind the connection, the requests that
  reached the connection so far, and the hooks' log.
\<close>

record ('c, 'l) world =
  database :: 'c
  sent :: "request list"
  hookLog :: 'l

record ('row, 'c, 'l) ModelDb =
  connOrTx :: "('row, 'c) Connection"
  schema :: SchemaDefinition
  loggingOptions :: "('row, 'l) DbLoggingOptions"
  model :: ModelDefinition

text \<open>The constructor of \<^verbatim>\<open>ModelDb\<close>.\<close>

definition newModelDb ::
  "string \<Rightarrow> ('row, 'c) Connection \<Rightarrow> SchemaDefinition \<Rightarrow> ('row, 'l) DbLoggingOptions
     \<Rightarrow> thrown + ('row, 'c, 'l) ModelDb" where
  "newModelDb name conn sch opts =
     (case find (\<lambda>m. modelName m = name) (models sch) of
        None \<Rightarrow> Inl (Error (''Model '' @ name @ '' not found in schema.''))
      | Some m \<Rightarrow> Inr \<lparr>connOrTx = conn, schema = sch, loggingOptions = opts, model = m\<rparr>)"

text \<open>
  The helpers of \<^verbatim>\<open>sql-utils.js\<close> and \<^verbatim>\<open>JSON.stringify\<close> are not part of the sources at
  hand; they are parameters. Each clause builder may throw.
\<close>

record OneBasedPagingInput =
  page :: int
  rpp :: int

record ('w, 'o) SqlUtils =
  bt :: "string list \<Rightarrow> Sql"
  getWhere :: "'w \<Rightarrow> string \<Rightarrow> thrown + Sql"
  getOrderBy :: "'o \<Rightarrow> string \<Rightarrow> thrown + Sql"
  getLimitOffset :: "OneBasedPagingInput option \<Rightarrow> thrown + Sql"
  stringify :: "jsval \<Rightarrow> thrown + jsval"

subsection \<open>\<^verbatim>\<open>BaseDb\<close>\<close>

definition performanceLoggerOf :: "('row, 'c, 'l) ModelDb \<Rightarrow> 'row ExecutedQuery \<Rightarrow> 'l \<Rightarrow> 'l" where
  "performanceLoggerOf db =
     (case performanceLogger (loggingOptions db) of Some h \<Rightarrow> h | None \<Rightarrow> (\<lambda>_ l. l))"

definition errorLoggerOf :: "('row, 'c, 'l) ModelDb \<Rightarrow> ExecuteError \<Rightarrow> 'l \<Rightarrow> 'l" where
  "errorLoggerOf db =
     (case errorLogger (loggingOptions db) of Some h \<Rightarrow> h | None \<Rightarrow> (\<lambda>_ l. l))"

definition requestOf :: "Sql \<Rightarrow> CustomModelCast option \<Rightarrow> request" where
  "requestOf q customModelCast =
     \<lparr>req_sql = sqlText q, req_values = sqlValues q, req_cast = customModelCast\<rparr>"

text \<open>
  \<^verbatim>\<open>execute\<close>: the one place where a statement reaches the connection. A result goes to
  the performance hook and back to the caller; anything thrown goes, wrapped with the
  statement, to the error hook, and the caller gets a new error with a fixed message.
\<close>

definition execute ::
  "('row, 'c, 'l) ModelDb \<Rightarrow> Sql \<Rightarrow> CustomModelCast option \<Rightarrow> ('c, 'l) world
     \<Rightarrow> (thrown + 'row ExecutedQuery) \<times> ('c, 'l) world" where
  "execute db q customModelCast w =
     (case connOrTx db (requestOf q customModelCast) (database w) of
        (Inr result, c') \<Rightarrow>
          (Inr result,
           \<lparr>database = c', sent = sent w @ [requestOf q customModelCast],
            hookLog = performanceLoggerOf db result (hookLog w)\<rparr>)
      | (Inl error, c') \<Rightarrow>
          (Inl (Error ''Internal server error.''),
           \<lparr>database = c', sent = sent w @ [requestOf q customModelCast],
            hookLog = errorLoggerOf db (newExecuteError error q) (hookLog w)\<rparr>))"

definition executeSelect ::
  "('row, 'c, 'l) ModelDb \<Rightarrow> Sql \<Rightarrow> CustomModelCast option \<Rightarrow> ('c, 'l) world
     \<Rightarrow> (thrown + ('row ExecutedQuery \<times> 'row list)) \<times> ('c, 'l) world" where
  "executeSelect db q customModelCast w =
     (case execute db q customModelCast w of
        (Inl e, w') \<Rightarrow> (Inl e, w')
      | (Inr executedQuery, w') \<Rightarrow> (Inr (executedQuery, rows executedQuery), w'))"

definition executeSelectFirst ::
  "('row, 'c, 'l) ModelDb \<Rightarrow> Sql \<Rightarrow> CustomModelCast option \<Rightarrow> ('c, 'l) world
     \<Rightarrow> (thrown + 'row option) \<times> ('c, 'l) world" where
  "executeSelectFirst db q customModelCast w =
     (case executeSelect db q customModelCast w of
        (Inl e, w') \<Rightarrow> (Inl e, w')
      | (Inr (_, rs), w') \<Rightarrow> (Inr (case rs of [] \<Rightarrow> None | r # _ \<Rightarrow> Some r), w'))"

definition executeSelectFirstOrThrow ::
  "('row, 'c, 'l) ModelDb \<Rightarrow> Sql \<Rightarrow> CustomModelCast option \<Rightarrow> ('c, 'l) world
     \<Rightarrow> (thrown + 'row) \<times> ('c, 'l) world" where
  "executeSelectFirstOrThrow db q customModelCast w =
     (case executeSelectFirst db q customModelCast w of
        (Inl e, w') \<Rightarrow> (Inl e, w')
      | (Inr None, w') \<Rightarrow> (Inl (Error ''executeSelectFirstOrThrow failed to find a record.''), w')
      | (Inr (Some r), w') \<Rightarrow> (Inr r, w'))"

subsection \<open>\<^verbatim>\<open>ModelDb\<close>\<close>

definition keys :: "('row, 'c, 'l) ModelDb \<Rightarrow> string list" where
  "keys db = map fieldName (model_fields (model db))"

definition primaryKeys :: "('row, 'c, 'l) ModelDb \<Rightarrow> string list" where
  "primaryKeys db = map fieldName (filter isPrimaryKey (model_fields (model db)))"

definition jsonKeys :: "('row, 'c, 'l) ModelDb \<Rightarrow> string list" where
  "jsonKeys db = map fieldName (filter (\<lambda>f. castType f = CastJson) (model_fields (model db)))"

definition setKeys :: "('row, 'c, 'l) ModelDb \<Rightarrow> string list" where
  "setKeys db = map fieldName (filter (\<lambda>f. castType f = CastSet) (model_fields (model db)))"

definition autoIncrementingPrimaryKey :: "('row, 'c, 'l) ModelDb \<Rightarrow> string option" where
  "autoIncrementingPrimaryKey db =
     (case find isAutoIncrement (model_fields (model db)) of
        Some field \<Rightarrow> Some (fieldName field)
      | None \<Rightarrow> None)"

text \<open>
  The \<^verbatim>\<open>select\<close> of \<^verbatim>\<open>findMany\<close>: left out, the word \<^verbatim>\<open>'all'\<close>, or an array of field
  names.
\<close>

datatype ModelSelectColumnsInput = SelectUndefined | SelectAll | SelectFields "string list"

record ('w, 'o) FindManyInput =
  fm_where :: 'w
  fm_paging :: "OneBasedPagingInput option"
  fm_orderBy :: 'o
  fm_select :: ModelSelectColumnsInput

definition getSelectForFieldName ::
  "('w, 'o) SqlUtils \<Rightarrow> ('row, 'c, 'l) ModelDb \<Rightarrow> string \<Rightarrow> thrown + Sql" where
  "getSelectForFieldName u db name =
     (case find (\<lambda>f. fieldName f = name) (model_fields (model db)) of
        None \<Rightarrow> Inl (Error (''Invalid select: the field named '' @ name @ '' does not exist.''))
      | Some field \<Rightarrow>
          Inr (bt u [tableName (model db), columnName field] @ [Text '' as '']
               @ bt u [fieldName field]))"

definition selectColumns ::
  "('w, 'o) SqlUtils \<Rightarrow> ('row, 'c, 'l) ModelDb \<Rightarrow> ModelSelectColumnsInput \<Rightarrow> thrown + Sql" where
  "selectColumns u db sel =
     (case sel of
        SelectFields names \<Rightarrow>
          if length names > 0 then
            (case mapE (getSelectForFieldName u db) names of
               Inl e \<Rightarrow> Inl e
             | Inr qs \<Rightarrow> joinSql qs)
          else Inr (raw ''*'')
      | SelectAll \<Rightarrow>
          (case mapE (getSelectForFieldName u db) (keys db) of
             Inl e \<Rightarrow> Inl e
           | Inr qs \<Rightarrow> joinSql qs)
      | SelectUndefined \<Rightarrow> Inr (raw ''*''))"

text \<open>
  \<^verbatim>\<open>findMany\<close>: the three clauses are built first, then the select list, then the
  statement, which goes to \<^const>\<open>executeSelect\<close>. The line breaks and indentation of
  the statement templates are written as single blanks.
\<close>

definition findManyQuery ::
  "('w, 'o) SqlUtils \<Rightarrow> ('row, 'c, 'l) ModelDb \<Rightarrow> ('w, 'o) FindManyInput \<Rightarrow> thrown + Sql" where
  "findManyQuery u db input =
     (case getWhere u (fm_where input) (tableName (model db)) of
        Inl e \<Rightarrow> Inl e
      | Inr wh \<Rightarrow>
     (case getOrderBy u (fm_orderBy input) (tableName (model db)) of
        Inl e \<Rightarrow> Inl e
      | Inr ob \<Rightarrow>
     (case getLimitOffset u (fm_paging input) of
        Inl e \<Rightarrow> Inl e
      | Inr lim \<Rightarrow>
     (case selectColumns u db (fm_select input) of
        Inl e \<Rightarrow> Inl e
      | Inr sel \<Rightarrow>
          Inr ([Text ''SELECT ''] @ sel @ [Text '' FROM ''] @ bt u [tableName (model db)]
               @ [Text '' ''] @ wh @ [Text '' ''] @ ob @ [Text '' ''] @ lim)))))"

definition findMany ::
  "('w, 'o) SqlUtils \<Rightarrow> ('row, 'c, 'l) ModelDb \<Rightarrow> ('w, 'o) FindManyInput \<Rightarrow> ('c, 'l) world
     \<Rightarrow> (thrown + 'row list) \<times> ('c, 'l) world" where
  "findMany u db input w =
     (case findManyQuery u db input of
        Inl e \<Rightarrow> (Inl e, w)
      | Inr q \<Rightarrow>
          (case executeSelect db q None w of
             (Inl e, w') \<Rightarrow> (Inl e, w')
           | (Inr (_, rs), w') \<Rightarrow> (Inr rs, w')))"

definition findFirst ::
  "('w, 'o) SqlUtils \<Rightarrow> ('row, 'c, 'l) ModelDb \<Rightarrow> ('w, 'o) FindManyInput \<Rightarrow> ('c, 'l) world
     \<Rightarrow> (thrown + 'row option) \<times> ('c, 'l) world" where
  "findFirst u db input w =
     (case findMany u db (input\<lparr>fm_paging := Some \<lparr>page = 1, rpp = 1\<rparr>\<rparr>) w of
        (Inl e, w') \<Rightarrow> (Inl e, w')
      | (Inr rs, w') \<Rightarrow> (Inr (case rs of [] \<Rightarrow> None | r # _ \<Rightarrow> Some r), w'))"

definition findFirstOrThrow ::
  "('w, 'o) SqlUtils \<Rightarrow> ('row, 'c, 'l) ModelDb \<Rightarrow> ('w, 'o) FindManyInput \<Rightarrow> ('c, 'l) world
     \<Rightarrow> (thrown + 'row) \<times> ('c, 'l) world" where
  "findFirstOrThrow u db input w =
     (case findFirst u db input w of
        (Inl e, w') \<Rightarrow> (Inl e, w')
      | (Inr None, w') \<Rightarrow> (Inl (Error ''findFirstOrThrow failed to find a record.''), w')
      | (Inr (Some r), w') \<Rightarrow> (Inr r, w'))"

text \<open>
  \<^verbatim>\<open>countBigInt\<close> asks for the column \<^verbatim>\<open>ct\<close> cast as \<^verbatim>\<open>bigint\<close>; its rows have the type
  \<^verbatim>\<open>{ ct: bigint }\<close>.
\<close>

record ct_row =
  ct :: int

definition countQuery :: "('w, 'o) SqlUtils \<Rightarrow> ('row, 'c, 'l) ModelDb \<Rightarrow> 'w \<Rightarrow> thrown + Sql" where
  "countQuery u db wh_input =
     (case getWhere u wh_input (tableName (model db)) of
        Inl e \<Rightarrow> Inl e
      | Inr wh \<Rightarrow>
          Inr ([Text ''SELECT COUNT(*) AS `ct` FROM ''] @ bt u [tableName (model db)]
               @ [Text '' ''] @ wh))"

definition countBigInt ::
  "('w, 'o) SqlUtils \<Rightarrow> (ct_row, 'c, 'l) ModelDb \<Rightarrow> 'w \<Rightarrow> ('c, 'l) world
     \<Rightarrow> (thrown + int) \<times> ('c, 'l) world" where
  "countBigInt u db wh_input w =
     (case countQuery u db wh_input of
        Inl e \<Rightarrow> (Inl e, w)
      | Inr q \<Rightarrow>
          (case executeSelect db q (Some [(''ct'', CastBigint)]) w of
             (Inl e, w') \<Rightarrow> (Inl e, w')
           | (Inr (_, rs), w') \<Rightarrow> (Inr (case rs of [] \<Rightarrow> 0 | r # _ \<Rightarrow> ct r), w')))"

text \<open>
  A JavaScript number made from an integer by \<^verbatim>\<open>Number(...)\<close>: the double nearest to it,
  which is the integer itself up to \<^verbatim>\<open>Number.MAX_SAFE_INTEGER\<close> in size.
\<close>

datatype number = Number int

definition MAX_SAFE_INTEGER :: int where
  "MAX_SAFE_INTEGER = 9007199254740991"

definition count ::
  "('w, 'o) SqlUtils \<Rightarrow> (ct_row, 'c, 'l) ModelDb \<Rightarrow> 'w \<Rightarrow> ('c, 'l) world
     \<Rightarrow> (thrown + number) \<times> ('c, 'l) world" where
  "count u db wh_input w =
     (case countBigInt u db wh_input w of
        (Inl e, w') \<Rightarrow> (Inl e, w')
      | (Inr n, w') \<Rightarrow>
          if n > MAX_SAFE_INTEGER
          then (Inl (Error ''count returned a number greater than Number.MAX_SAFE_INTEGER''), w')
          else (Inr (Number n), w'))"

text \<open>
  The data of \<^verbatim>\<open>create\<close> and \<^verbatim>\<open>updateWhere\<close>: an object, as its own properties in the
  order of \<^verbatim>\<open>Object.keys\<close>. Reading a property that is not there gives \<^verbatim>\<open>undefined\<close>.
\<close>

type_synonym jsobject = "(string \<times> jsval) list"

definition getProp :: "jsobject \<Rightarrow> string \<Rightarrow> jsval" where
  "getProp obj k = (case map_of obj k of None \<Rightarrow> JUndefined | Some v \<Rightarrow> v)"

text \<open>
  How one value is written into a statement: \<^verbatim>\<open>NULL\<close> for \<^verbatim>\<open>null\<close>, the JSON text for
  a json field, the members joined by commas for a \<^verbatim>\<open>Set\<close> in a set field, the value
  itself otherwise.
\<close>

definition encodeValue ::
  "('w, 'o) SqlUtils \<Rightarrow> ('row, 'c, 'l) ModelDb \<Rightarrow> jsobject \<Rightarrow> string \<Rightarrow> thrown + Sql" where
  "encodeValue u db data k =
     (if getProp data k = JNull then Inr (raw ''NULL'')
      else if k \<in> set (jsonKeys db) then
        (case stringify u (getProp data k) of Inl e \<Rightarrow> Inl e | Inr v \<Rightarrow> Inr [Value v])
      else (case getProp data k of
              JSet members \<Rightarrow>
                if k \<in> set (setKeys db) then Inr [Value (JString (join '','' members))]
                else Inr [Value (JSet members)]
            | v \<Rightarrow> Inr [Value v]))"

definition createQuery ::
  "('w, 'o) SqlUtils \<Rightarrow> ('row, 'c, 'l) ModelDb \<Rightarrow> jsobject \<Rightarrow> thrown + Sql" where
  "createQuery u db data =
     (let names = map (\<lambda>k. bt u [tableName (model db), k]) (map fst data) in
      case mapE (encodeValue u db data) (map fst data) of
        Inl e \<Rightarrow> Inl e
      | Inr insertValues \<Rightarrow>
          Inr ([Text ''INSERT INTO ''] @ bt u [tableName (model db)] @ [Text '' ('']
               @ (if length names > 0 then joinSep '','' names else empty_sql)
               @ [Text '') VALUES ('']
               @ (if length insertValues > 0 then joinSep '','' insertValues else empty_sql)
               @ [Text '')'']))"

text \<open>
  \<^verbatim>\<open>create\<close>. After the statement has run, the key to return is chosen by the test
  \<^verbatim>\<open>if (autoGeneratedPrimaryKey)\<close>, which \<^verbatim>\<open>null\<close> and the empty string both fail.
\<close>

definition primaryKeyFromData :: "('row, 'c, 'l) ModelDb \<Rightarrow> jsobject \<Rightarrow> (string \<rightharpoonup> jsval)" where
  "primaryKeyFromData db data = foldl (\<lambda>acc k. acc(k \<mapsto> getProp data k)) Map.empty (primaryKeys db)"

definition create ::
  "('w, 'o) SqlUtils \<Rightarrow> ('row, 'c, 'l) ModelDb \<Rightarrow> jsobject \<Rightarrow> ('c, 'l) world
     \<Rightarrow> (thrown + (string \<rightharpoonup> jsval)) \<times> ('c, 'l) world" where
  "create u db data w =
     (case createQuery u db data of
        Inl e \<Rightarrow> (Inl e, w)
      | Inr q \<Rightarrow>
          (case execute db q None w of
             (Inl e, w') \<Rightarrow> (Inl e, w')
           | (Inr executedQuery, w') \<Rightarrow>
               (case autoIncrementingPrimaryKey db of
                  Some k \<Rightarrow>
                    if k \<noteq> [] then (Inr [k \<mapsto> JString (insertId executedQuery)], w')
                    else (Inr (primaryKeyFromData db data), w')
                | None \<Rightarrow> (Inr (primaryKeyFromData db data), w'))))"

definition updateQuery ::
  "('w, 'o) SqlUtils \<Rightarrow> ('row, 'c, 'l) ModelDb \<Rightarrow> jsobject \<Rightarrow> 'w \<Rightarrow> thrown + Sql" where
  "updateQuery u db data wh_input =
     (case mapE (\<lambda>k. case encodeValue u db data k of
                       Inl e \<Rightarrow> Inl e
                     | Inr v \<Rightarrow> Inr (bt u [tableName (model db), k] @ [Text '' = ''] @ v))
             (map fst data) of
        Inl e \<Rightarrow> Inl e
      | Inr updates \<Rightarrow>
     (case joinSql updates of
        Inl e \<Rightarrow> Inl e
      | Inr updateSql \<Rightarrow>
     (case getWhere u wh_input (tableName (model db)) of
        Inl e \<Rightarrow> Inl e
      | Inr wh \<Rightarrow>
          Inr ([Text ''UPDATE ''] @ bt u [tableName (model db)] @ [Text '' SET ''] @ updateSql
               @ [Text '' ''] @ wh))))"

definition updateWhere ::
  "('w, 'o) SqlUtils \<Rightarrow> ('row, 'c, 'l) ModelDb \<Rightarrow> jsobject \<Rightarrow> 'w \<Rightarrow> ('c, 'l) world
     \<Rightarrow> (thrown + 'row ExecutedQuery) \<times> ('c, 'l) world" where
  "updateWhere u db data wh_input w =
     (case updateQuery u db data wh_input of
        Inl e \<Rightarrow> (Inl e, w)
      | Inr q \<Rightarrow> execute db q None w)"

definition deleteWhere ::
  "('w, 'o) SqlUtils \<Rightarrow> ('row, 'c, 'l) ModelDb \<Rightarrow> 'w \<Rightarrow> ('c, 'l) world
     \<Rightarrow> (thrown + 'row ExecutedQuery) \<times> ('c, 'l) world" where
  "deleteWhere u db wh_input w =
     (case getWhere u wh_input (tableName (model db)) of
        Inl e \<Rightarrow> (Inl e, w)
      | Inr wh \<Rightarrow>
          execute db ([Text ''DELETE FROM ''] @ bt u [tableName (model db)] @ [Text '' ''] @ wh)
            None w)"

definition update ::
  "('w, 'o) SqlUtils \<Rightarrow> ('row, 'c, 'l) ModelDb \<Rightarrow> jsobject \<Rightarrow> 'w \<Rightarrow> ('c, 'l) world
     \<Rightarrow> (thrown + 'row ExecutedQuery) \<times> ('c, 'l) world" where
  "update u db data wh_input w = updateWhere u db data wh_input w"

definition delete ::
  "('w, 'o) SqlUtils \<Rightarrow> ('row, 'c, 'l) ModelDb \<Rightarrow> 'w \<Rightarrow> ('c, 'l) world
     \<Rightarrow> (thrown + 'row ExecutedQuery) \<times> ('c, 'l) world" where
  "delete u db wh_input w = deleteWhere u db wh_input w"

section \<open>Example inputs\<close>

text \<open>
  Modelled from the spec: \<^verbatim>\<open>KNOWN_MYSQL_TYPES\<close> (and \<^verbatim>\<open>MYSQL_TYPES\<close>), whose declaration
  is not part of the sources at hand. These are the type names the specification lists
  as the recognised vocabulary. The list is used at example inputs only; every general
  statement below holds for any list.
\<close>

definition KNOWN_MYSQL_TYPES :: "string list" where
  "KNOWN_MYSQL_TYPES =
     [''tinyint'', ''int'', ''integer'', ''smallint'', ''mediumint'', ''bigint'', ''year'',
      ''float'', ''double'', ''real'', ''decimal'', ''numeric'', ''date'', ''datetime'',
      ''timestamp'', ''json'', ''set'', ''enum'']"

text \<open>A column row with the given type and comment, not null, no key, no default.\<close>

definition exampleColumn :: "string \<Rightarrow> string \<Rightarrow> DatabaseColumnRow" where
  "exampleColumn tp cm =
     \<lparr>Field_col = ''c'', Type = tp, Null = ''NO'', Key = [], Default = None, Extra = [],
      Comment = cm\<rparr>"

definition defaultSettings :: FullSettings where
  "defaultSettings = \<lparr>typeBigIntAsString = None, typeTinyIntOneAsBoolean = None\<rparr>"

text \<open>
  A stand-in for the helpers of \<^verbatim>\<open>sql-utils.js\<close>, used at example inputs only: names in
  backquotes joined by a dot, and empty clauses.
\<close>

definition exampleUtils :: "(unit, unit) SqlUtils" where
  "exampleUtils =
     \<lparr>bt = (\<lambda>parts. [Text (join ''.'' (map (\<lambda>p. ''`'' @ p @ ''`'') parts))]),
      getWhere = (\<lambda>_ _. Inr []),
      getOrderBy = (\<lambda>_ _. Inr []),
      getLimitOffset = (\<lambda>_. Inr []),
      stringify = (\<lambda>v. Inr v)\<rparr>"

text \<open>A field definition of a \<^verbatim>\<open>varchar\<close> column with the given name and two flags.\<close>

definition exampleField :: "string \<Rightarrow> bool \<Rightarrow> bool \<Rightarrow> FieldDefinition" where
  "exampleField name autoIncrement primaryKey =
     \<lparr>fieldName = name, columnName = name, columnType = ''varchar(20)'', columnComment = [],
      columnDefault = None, columnExtra = (if autoIncrement then ''auto_increment'' else []),
      columnKey = (if primaryKey then ''PRI'' else []), columnNull = ''NO'',
      knownMySQLType = None, castType = CastString, javascriptType = ''string'',
      isPrimaryKey = primaryKey, isAutoIncrement = autoIncrement, isAlwaysGenerated = False,
      isDefaultGenerated = False, isInvisible = False, isNullable = False, isUnique = False,
      hasDefault = False, isOmittableInModel = False, isOmittedFromCreateData = False,
      isOptionalInCreateData = autoIncrement, isOmittedFromUpdateData = primaryKey\<rparr>"

text \<open>
  A database object over the given connection and fields; its error hook appends what
  it is given to a list.
\<close>

definition exampleDb ::
  "('row, unit) Connection \<Rightarrow> FieldDefinition list \<Rightarrow> ('row, unit, ExecuteError list) ModelDb" where
  "exampleDb conn fs =
     \<lparr>connOrTx = conn,
      schema = \<lparr>models = [\<lparr>modelName = ''Post'', tableName = ''post'', model_fields = fs\<rparr>],
                cast = []\<rparr>,
      loggingOptions = \<lparr>performanceLogger = None, errorLogger = Some (\<lambda>e l. l @ [e])\<rparr>,
      model = \<lparr>modelName = ''Post'', tableName = ''post'', model_fields = fs\<rparr>\<rparr>"

text \<open>A connection that answers every request with the given rows and insert id \<^verbatim>\<open>42\<close>.\<close>

definition answering :: "'row list \<Rightarrow> ('row, unit) Connection" where
  "answering rs = (\<lambda>_ c. (Inr \<lparr>rows = rs, insertId = ''42''\<rparr>, c))"

text \<open>A connection that throws on every request.\<close>

definition failing :: "thrown \<Rightarrow> ('row, unit) Connection" where
  "failing err = (\<lambda>_ c. (Inl err, c))"

definition exampleWorld :: "(unit, ExecuteError list) world" where
  "exampleWorld = \<lparr>database = (), sent = [], hookLog = []\<rparr>"

definition exampleInput :: "ModelSelectColumnsInput \<Rightarrow> (unit, unit) FindManyInput" where
  "exampleInput sel = \<lparr>fm_where = (), fm_paging = None, fm_orderBy = (), fm_select = sel\<rparr>"

text \<open>
  Three example models: a single auto-increment primary key \<^verbatim>\<open>id\<close>; a composite primary
  key \<^verbatim>\<open>a\<close>, \<^verbatim>\<open>b\<close> with no auto-increment field; a primary key \<^verbatim>\<open>uuid\<close> beside an
  auto-increment field \<^verbatim>\<open>seq\<close> that is not part of the key.
\<close>

definition postFields :: "FieldDefinition list" where
  "postFields = [exampleField ''id'' True True, exampleField ''title'' False False]"

definition memberFields :: "FieldDefinition list" where
  "memberFields =
     [exampleField ''a'' False True, exampleField ''b'' False True, exampleField ''note'' False False]"

definition eventFields :: "FieldDefinition list" where
  "eventFields = [exampleField ''uuid'' False True, exampleField ''seq'' True False]"

section \<open>Properties of the string model\<close>

text \<open>The character classes and case mappings, read as code units.\<close>

lemma isSpace_code_unit: "isSpace x \<longleftrightarrow> (of_char x :: nat) \<in> {9, 10, 11, 12, 13, 32, 160}"
proof (cases x)
  case (Char b0 b1 b2 b3 b4 b5 b6 b7)
  show ?thesis unfolding Char isSpace_def
    by (cases b0; cases b1; cases b2; cases b3; cases b4; cases b5; cases b6; cases b7; simp)
qed

lemma isWord_code_unit:
  "isWord x \<longleftrightarrow> (let n = of_char x :: nat in
     (48 \<le> n \<and> n \<le> 57) \<or> (65 \<le> n \<and> n \<le> 90) \<or> n = 95 \<or> (97 \<le> n \<and> n \<le> 122))"
proof (cases x)
  case (Char b0 b1 b2 b3 b4 b5 b6 b7)
  show ?thesis unfolding Char isWord_def
    by (cases b0; cases b1; cases b2; cases b3; cases b4; cases b5; cases b6; cases b7; simp)
qed

lemma canon_code_unit:
  "(of_char (canon x) :: nat) = (let n = of_char x in
     if (97 \<le> n \<and> n \<le> 122) \<or> (224 \<le> n \<and> n \<le> 254 \<and> n \<noteq> 247) then n - 32 else n)"
proof (cases x)
  case (Char b0 b1 b2 b3 b4 b5 b6 b7)
  show ?thesis unfolding Char
    by (cases b0; cases b1; cases b2; cases b3; cases b4; cases b5; cases b6; cases b7; simp)
qed

lemma lowerChar_code_unit:
  "(of_char (lowerChar x) :: nat) = (let n = of_char x in
     if (65 \<le> n \<and> n \<le> 90) \<or> (192 \<le> n \<and> n \<le> 222 \<and> n \<noteq> 215) then n + 32 else n)"
proof (cases x)
  case (Char b0 b1 b2 b3 b4 b5 b6 b7)
  show ?thesis unfolding Char
    by (cases b0; cases b1; cases b2; cases b3; cases b4; cases b5; cases b6; cases b7; simp)
qed

text \<open>The helpers on the inputs the README and the specification use.\<close>

lemma getParenthesizedArgs_examples:
  "getParenthesizedArgs ''tinyint(1)'' ''tinyint'' = ''1''"
  "getParenthesizedArgs ''tinyint(1) unsigned'' ''tinyint'' = ''1''"
  "getParenthesizedArgs ''tinyint'' ''tinyint'' = []"
  "getParenthesizedArgs ''set('lg', 'xl', 'xxl')'' ''set'' = CHR 0x27 # ''lg', 'xl', 'xxl'' @ [CHR 0x27]"
  "getParenthesizedArgs ''@json(Foo) and (bar) x'' ''@json'' = ''Foo) and (bar''"
  by code_simp+

lemma getFieldKnownMySQLType_examples:
  "getFieldKnownMySQLType KNOWN_MYSQL_TYPES (exampleColumn ''BIGINT(20) unsigned'' []) = Some ''bigint''"
  "getFieldKnownMySQLType KNOWN_MYSQL_TYPES (exampleColumn ''integer'' []) = Some ''integer''"
  "getFieldKnownMySQLType KNOWN_MYSQL_TYPES (exampleColumn ''varchar(20)'' []) = None"
  by code_simp+

lemma Field_typeAnnotations_examples:
  "map (\<lambda>a. (annotation a, typeArgument a)) (Field_typeAnnotations (exampleColumn [] ''the size @Set''))
     = [(''set'', None)]"
  "map (\<lambda>a. (annotation a, typeArgument a))
     (Field_typeAnnotations (exampleColumn [] ''@json @JSON(Foo) @bigint''))
     = [(''json'', None), (''json'', Some ''Foo''), (''bigint'', None)]"
  "map (\<lambda>a. (annotation a, typeArgument a)) (Field_typeAnnotations (exampleColumn [] ''x@set @text''))
     = []"
  by code_simp+

section \<open>Type resolution\<close>

subsection \<open>\<^verbatim>\<open>bigint\<close> columns\<close>

text \<open>
  Claim C1. For every column whose extracted base MySQL type is \<^verbatim>\<open>bigint\<close>,
  \<^verbatim>\<open>parseFieldDefinition\<close> resolves the cast type \<^verbatim>\<open>bigint\<close> if and only if
  \<^verbatim>\<open>settings.typeBigIntAsString === false\<close> or the comment carries an \<^verbatim>\<open>@bigint\<close>
  annotation, and \<^verbatim>\<open>string\<close> otherwise. This holds for every list of known types, every
  column and every settings object.
\<close>

theorem bigint_castType:
  assumes "getFieldKnownMySQLType types col = Some ''bigint''"
  shows "castType (parseFieldDefinition camelCase types col settings) =
           (if typeBigIntAsString settings = Some False \<or> hasColumnCommentAnnotation ''bigint'' col
            then CastBigint else CastString)"
  using assms by (simp add: parseFieldDefinition_def getFieldCastType_def Let_def)

text \<open>
  At \<^verbatim>\<open>bigint unsigned\<close>: with no annotation and default settings the cast type is
  \<^verbatim>\<open>string\<close>; with \<^verbatim>\<open>@bigint\<close> in the comment, or with \<^verbatim>\<open>typeBigIntAsString\<close> false, it
  is \<^verbatim>\<open>bigint\<close>; with \<^verbatim>\<open>typeBigIntAsString\<close> true and no annotation it is \<^verbatim>\<open>string\<close>.
\<close>

theorem bigint_castType_witness:
  "getFieldKnownMySQLType KNOWN_MYSQL_TYPES (exampleColumn ''bigint unsigned'' []) = Some ''bigint''
   \<and> getFieldKnownMySQLType KNOWN_MYSQL_TYPES (exampleColumn ''bigint unsigned'' ''@bigint'') = Some ''bigint''
   \<and> castType (parseFieldDefinition id KNOWN_MYSQL_TYPES (exampleColumn ''bigint unsigned'' [])
        defaultSettings) = CastString
   \<and> castType (parseFieldDefinition id KNOWN_MYSQL_TYPES (exampleColumn ''bigint unsigned'' ''@bigint'')
        defaultSettings) = CastBigint
   \<and> castType (parseFieldDefinition id KNOWN_MYSQL_TYPES (exampleColumn ''bigint unsigned'' [])
        (defaultSettings\<lparr>typeBigIntAsString := Some False\<rparr>)) = CastBigint
   \<and> castType (parseFieldDefinition id KNOWN_MYSQL_TYPES (exampleColumn ''bigint unsigned'' [])
        (defaultSettings\<lparr>typeBigIntAsString := Some True\<rparr>)) = CastString"
proof -
  have h1: "getFieldKnownMySQLType KNOWN_MYSQL_TYPES (exampleColumn ''bigint unsigned'' []) = Some ''bigint''"
    by code_simp
  have h2: "getFieldKnownMySQLType KNOWN_MYSQL_TYPES (exampleColumn ''bigint unsigned'' ''@bigint'') = Some ''bigint''"
    by code_simp
  have a1: "\<not> hasColumnCommentAnnotation ''bigint'' (exampleColumn ''bigint unsigned'' [])"
    by code_simp
  have a2: "hasColumnCommentAnnotation ''bigint'' (exampleColumn ''bigint unsigned'' ''@bigint'')"
    by code_simp
  show ?thesis
    using h1 h2 a1 a2
      bigint_castType [OF h1, of id defaultSettings]
      bigint_castType [OF h2, of id defaultSettings]
      bigint_castType [OF h1, of id "defaultSettings\<lparr>typeBigIntAsString := Some False\<rparr>"]
      bigint_castType [OF h1, of id "defaultSettings\<lparr>typeBigIntAsString := Some True\<rparr>"]
    by (simp add: defaultSettings_def)
qed

text \<open>
  The \<^verbatim>\<open>Field\<close> class takes no settings. Its cast type for a \<^verbatim>\<open>bigint\<close> column depends on
  the annotation alone, which is the rule above at the default settings.
\<close>

lemma Field_castType_bigint:
  "Field_mysqlBaseType types col = Some ''bigint'' \<Longrightarrow>
   Field_castType types col = (if Field_bigIntAnnotation col \<noteq> None then CastBigint else CastString)"
  by (simp add: Field_castType_def Let_def)

subsection \<open>\<^verbatim>\<open>tinyint\<close> columns\<close>

text \<open>
  Claim C4. For every column whose base type is \<^verbatim>\<open>tinyint\<close>: when the parenthesized
  argument of its type is exactly \<^verbatim>\<open>1\<close> (as in \<^verbatim>\<open>tinyint(1)\<close>), the cast type is
  \<^verbatim>\<open>boolean\<close> unless \<^verbatim>\<open>settings.typeTinyIntOneAsBoolean === false\<close>, in which case it is
  \<^verbatim>\<open>int\<close>; for every other \<^verbatim>\<open>tinyint\<close> column the cast type is \<^verbatim>\<open>int\<close>, whatever the
  flag.
\<close>

theorem tinyint_castType:
  assumes "getFieldKnownMySQLType types col = Some ''tinyint''"
  shows "castType (parseFieldDefinition camelCase types col settings) =
           (if trim (getParenthesizedArgs (Type col) ''tinyint'') = ''1''
            then (if typeTinyIntOneAsBoolean settings = Some False then CastInt else CastBoolean)
            else CastInt)"
  using assms by (simp add: parseFieldDefinition_def getFieldCastType_def Let_def)

text \<open>
  At \<^verbatim>\<open>tinyint(1)\<close> the cast type is \<^verbatim>\<open>boolean\<close> with the flag unset or true and \<^verbatim>\<open>int\<close>
  with the flag false; at \<^verbatim>\<open>tinyint(2)\<close> and at \<^verbatim>\<open>tinyint\<close> it is \<^verbatim>\<open>int\<close> with the flag
  unset and with the flag true.
\<close>

theorem tinyint_castType_witness:
  "getFieldKnownMySQLType KNOWN_MYSQL_TYPES (exampleColumn ''tinyint(1)'' []) = Some ''tinyint''
   \<and> getFieldKnownMySQLType KNOWN_MYSQL_TYPES (exampleColumn ''tinyint(2)'' []) = Some ''tinyint''
   \<and> getFieldKnownMySQLType KNOWN_MYSQL_TYPES (exampleColumn ''tinyint'' []) = Some ''tinyint''
   \<and> castType (parseFieldDefinition id KNOWN_MYSQL_TYPES (exampleColumn ''tinyint(1)'' [])
        defaultSettings) = CastBoolean
   \<and> castType (parseFieldDefinition id KNOWN_MYSQL_TYPES (exampleColumn ''tinyint(1)'' [])
        (defaultSettings\<lparr>typeTinyIntOneAsBoolean := Some True\<rparr>)) = CastBoolean
   \<and> castType (parseFieldDefinition id KNOWN_MYSQL_TYPES (exampleColumn ''tinyint(1)'' [])
        (defaultSettings\<lparr>typeTinyIntOneAsBoolean := Some False\<rparr>)) = CastInt
   \<and> castType (parseFieldDefinition id KNOWN_MYSQL_TYPES (exampleColumn ''tinyint(2)'' [])
        defaultSettings) = CastInt
   \<and> castType (parseFieldDefinition id KNOWN_MYSQL_TYPES (exampleColumn ''tinyint(2)'' [])
        (defaultSettings\<lparr>typeTinyIntOneAsBoolean := Some True\<rparr>)) = CastInt
   \<and> castType (parseFieldDefinition id KNOWN_MYSQL_TYPES (exampleColumn ''tinyint'' [])
        defaultSettings) = CastInt
   \<and> castType (parseFieldDefinition id KNOWN_MYSQL_TYPES (exampleColumn ''tinyint'' [])
        (defaultSettings\<lparr>typeTinyIntOneAsBoolean := Some True\<rparr>)) = CastInt"
proof -
  have h1: "getFieldKnownMySQLType KNOWN_MYSQL_TYPES (exampleColumn ''tinyint(1)'' []) = Some ''tinyint''"
    by code_simp
  have h2: "getFieldKnownMySQLType KNOWN_MYSQL_TYPES (exampleColumn ''tinyint(2)'' []) = Some ''tinyint''"
    by code_simp
  have h3: "getFieldKnownMySQLType KNOWN_MYSQL_TYPES (exampleColumn ''tinyint'' []) = Some ''tinyint''"
    by code_simp
  have a1: "trim (getParenthesizedArgs (Type (exampleColumn ''tinyint(1)'' [])) ''tinyint'') = ''1''"
    by code_simp
  have a2: "trim (getParenthesizedArgs (Type (exampleColumn ''tinyint(2)'' [])) ''tinyint'') = ''2''"
    by code_simp
  have a3: "trim (getParenthesizedArgs (Type (exampleColumn ''tinyint'' [])) ''tinyint'') = []"
    by code_simp
  show ?thesis
    using h1 h2 h3
      tinyint_castType [OF h1, of id defaultSettings]
      tinyint_castType [OF h1, of id "defaultSettings\<lparr>typeTinyIntOneAsBoolean := Some True\<rparr>"]
      tinyint_castType [OF h1, of id "defaultSettings\<lparr>typeTinyIntOneAsBoolean := Some False\<rparr>"]
      tinyint_castType [OF h2, of id defaultSettings]
      tinyint_castType [OF h2, of id "defaultSettings\<lparr>typeTinyIntOneAsBoolean := Some True\<rparr>"]
      tinyint_castType [OF h3, of id defaultSettings]
      tinyint_castType [OF h3, of id "defaultSettings\<lparr>typeTinyIntOneAsBoolean := Some True\<rparr>"]
    by (simp add: defaultSettings_def a1 a2 a3)
qed

text \<open>
  The argument is what \<^verbatim>\<open>getParenthesizedArgs\<close> finds after the type name, so a type
  that goes on after \<^verbatim>\<open>tinyint(1)\<close>, such as \<^verbatim>\<open>tinyint(1) unsigned\<close>, is treated like
  \<^verbatim>\<open>tinyint(1)\<close>.
\<close>

lemma tinyint_one_unsigned_example:
  "castType (parseFieldDefinition id KNOWN_MYSQL_TYPES (exampleColumn ''tinyint(1) unsigned'' [])
        defaultSettings) = CastBoolean"
  by code_simp

text \<open>
  The \<^verbatim>\<open>Field\<close> class, which takes no settings, gives \<^verbatim>\<open>boolean\<close> for the argument \<^verbatim>\<open>1\<close>
  and \<^verbatim>\<open>int\<close> for every other \<^verbatim>\<open>tinyint\<close> column: the rule above at the default settings.
\<close>

lemma Field_castType_tinyint:
  "Field_mysqlBaseType types col = Some ''tinyint'' \<Longrightarrow>
   Field_castType types col =
     (if trim (getParenthesizedArgs (Type col) ''tinyint'') = ''1'' then CastBoolean else CastInt)"
  by (simp add: Field_castType_def Field_isTinyIntOne_def Let_def)

subsection \<open>\<^verbatim>\<open>set\<close> columns\<close>

text \<open>
  Claim C2. For every column whose base type is \<^verbatim>\<open>set\<close>, the cast type is \<^verbatim>\<open>set\<close> if and
  only if the comment carries a \<^verbatim>\<open>@set\<close> annotation, with or without an argument, and
  \<^verbatim>\<open>string\<close> otherwise; with a bare \<^verbatim>\<open>@set\<close> the element type comes from the column's
  \<^verbatim>\<open>set(...)\<close> definition.

  \<^verbatim>\<open>getFieldCastType\<close> does not do this. It never looks at the comment of a \<^verbatim>\<open>set\<close>
  column: for every such column, every comment and all settings \<^verbatim>\<open>parseFieldDefinition\<close>
  gives the cast type \<^verbatim>\<open>set\<close>, and the type \<^verbatim>\<open>Set<...>\<close> built from the column's
  definition. The claim, the README and the \<^verbatim>\<open>Field\<close> class say \<^verbatim>\<open>string\<close> when there is
  no \<^verbatim>\<open>@set\<close> annotation.
\<close>

theorem getFieldCastType_set_always:
  assumes "getFieldKnownMySQLType types col = Some ''set''"
  shows "castType (parseFieldDefinition camelCase types col settings) = CastSet
       \<and> javascriptType (parseFieldDefinition camelCase types col settings) =
           (let strings = definitionLiterals (Type col) ''set''
            in if length strings > 0 then ''Set<'' @ strings @ ''>'' else ''Set<string>'')"
  using assms
  by (simp add: parseFieldDefinition_def getFieldCastType_def getFieldJavascriptType_def Let_def)

text \<open>
  At the column \<^verbatim>\<open>set('a','b')\<close> with an empty comment and default settings: no \<^verbatim>\<open>@set\<close>
  annotation, cast type \<^verbatim>\<open>set\<close> and not \<^verbatim>\<open>string\<close>, type \<^verbatim>\<open>Set<'a'|'b'>\<close>.
\<close>

theorem getFieldCastType_set_always_witness:
  "getFieldKnownMySQLType KNOWN_MYSQL_TYPES (exampleColumn ''set('a','b')'' []) = Some ''set''
   \<and> \<not> hasColumnCommentAnnotation ''set'' (exampleColumn ''set('a','b')'' [])
   \<and> castType (parseFieldDefinition id KNOWN_MYSQL_TYPES (exampleColumn ''set('a','b')'' [])
        defaultSettings) = CastSet
   \<and> castType (parseFieldDefinition id KNOWN_MYSQL_TYPES (exampleColumn ''set('a','b')'' [])
        defaultSettings) \<noteq> CastString
   \<and> javascriptType (parseFieldDefinition id KNOWN_MYSQL_TYPES (exampleColumn ''set('a','b')'' [])
        defaultSettings) = ''Set<'a'|'b'>''"
proof -
  have h: "getFieldKnownMySQLType KNOWN_MYSQL_TYPES (exampleColumn ''set('a','b')'' []) = Some ''set''"
    by code_simp
  have a: "\<not> hasColumnCommentAnnotation ''set'' (exampleColumn ''set('a','b')'' [])"
    by code_simp
  have d: "definitionLiterals (Type (exampleColumn ''set('a','b')'' [])) ''set'' = CHR 0x27 # ''a'|'b'' @ [CHR 0x27]"
    by code_simp
  show ?thesis
    using h a getFieldCastType_set_always [OF h, of id defaultSettings]
    by (simp add: d)
qed

text \<open>
  The \<^verbatim>\<open>Field\<close> class does what the claim says: the cast type of a \<^verbatim>\<open>set\<close> column is
  \<^verbatim>\<open>set\<close> exactly when a \<^verbatim>\<open>@set\<close> annotation is found, and without an argument (or with an
  empty or blank one) the type is built from the column's definition.
\<close>

lemma Field_castType_set:
  "Field_mysqlBaseType types col = Some ''set'' \<Longrightarrow>
   Field_castType types col = (if Field_setAnnotation col \<noteq> None then CastSet else CastString)"
  by (simp add: Field_castType_def Field_isTinyIntOne_def Let_def)

lemma Field_javascriptType_bare_set:
  assumes "Field_mysqlBaseType types col = Some ''set''"
    and "Field_setAnnotation col = Some a"
    and "typeArgument a = None \<or> (\<exists>arg. typeArgument a = Some arg \<and> trim arg = [])"
  shows "Field_javascriptType types col =
           (let strings = definitionLiterals (Type col) ''set''
            in if length strings > 0 then ''Set<'' @ strings @ ''>'' else ''Set<string>'')"
  using assms by (auto simp add: Field_javascriptType_def Field_castType_set Let_def)

lemma Field_set_examples:
  "Field_castType KNOWN_MYSQL_TYPES (exampleColumn ''set('a','b')'' []) = CastString"
  "Field_castType KNOWN_MYSQL_TYPES (exampleColumn ''set('a','b')'' ''@set'') = CastSet"
  "Field_javascriptType KNOWN_MYSQL_TYPES (exampleColumn ''set('a','b')'' ''@set'') = ''Set<'a'|'b'>''"
  "Field_castType KNOWN_MYSQL_TYPES (exampleColumn ''set('a','b')'' ''@Set(Size)'') = CastSet"
  "Field_javascriptType KNOWN_MYSQL_TYPES (exampleColumn ''set('a','b')'' ''@Set(Size)'') = ''Set<Size>''"
  by code_simp+

subsection \<open>\<^verbatim>\<open>enum\<close> columns\<close>

text \<open>
  Claim C3. For every column whose base type is \<^verbatim>\<open>enum\<close>, the cast type is \<^verbatim>\<open>string\<close>,
  for all settings and whatever the comment says.

  \<^verbatim>\<open>getFieldCastType\<close> does not do this. For every \<^verbatim>\<open>enum\<close> column, every comment and all
  settings it returns the cast type \<^verbatim>\<open>enum\<close>, although its own last comment counts
  \<^verbatim>\<open>enum\<close> among the types cast to \<^verbatim>\<open>string\<close>.
\<close>

theorem getFieldCastType_enum_always:
  assumes "getFieldKnownMySQLType types col = Some ''enum''"
  shows "castType (parseFieldDefinition camelCase types col settings) = CastEnum"
  using assms by (simp add: parseFieldDefinition_def getFieldCastType_def Let_def)

text \<open>
  At the column \<^verbatim>\<open>enum('a','b')\<close> with an empty comment and default settings the cast
  type is \<^verbatim>\<open>enum\<close>, not \<^verbatim>\<open>string\<close>.
\<close>

theorem getFieldCastType_enum_always_witness:
  "getFieldKnownMySQLType KNOWN_MYSQL_TYPES (exampleColumn ''enum('a','b')'' []) = Some ''enum''
   \<and> castType (parseFieldDefinition id KNOWN_MYSQL_TYPES (exampleColumn ''enum('a','b')'' [])
        defaultSettings) = CastEnum
   \<and> castType (parseFieldDefinition id KNOWN_MYSQL_TYPES (exampleColumn ''enum('a','b')'' [])
        defaultSettings) \<noteq> CastString"
proof -
  have h: "getFieldKnownMySQLType KNOWN_MYSQL_TYPES (exampleColumn ''enum('a','b')'' []) = Some ''enum''"
    by code_simp
  show ?thesis
    using h getFieldCastType_enum_always [OF h, of id defaultSettings] by simp
qed

text \<open>
  The \<^verbatim>\<open>Field\<close> class does what the claim says: \<^verbatim>\<open>string\<close> for every \<^verbatim>\<open>enum\<close> column. It
  never produces the cast type \<^verbatim>\<open>enum\<close>.
\<close>

lemma Field_castType_enum:
  "Field_mysqlBaseType types col = Some ''enum'' \<Longrightarrow> Field_castType types col = CastString"
  by (simp add: Field_castType_def Field_isTinyIntOne_def Let_def)

lemma Field_castType_never_enum: "Field_castType types col \<noteq> CastEnum"
  by (simp add: Field_castType_def Let_def)

subsection \<open>\<^verbatim>\<open>@json\<close> and \<^verbatim>\<open>@enum\<close> without an argument\<close>

text \<open>
  Claim C5. A \<^verbatim>\<open>@json\<close> or \<^verbatim>\<open>@enum\<close> annotation whose argument is missing or empty counts as
  absent: the type of a \<^verbatim>\<open>json\<close> column is then the default JSON type, and the type of an
  \<^verbatim>\<open>enum\<close> column is built from the column's definition.

  \<^verbatim>\<open>getFieldJavascriptType\<close> misses this for \<^verbatim>\<open>json\<close>. Once the comment of a \<^verbatim>\<open>json\<close>
  column carries \<^verbatim>\<open>@json\<close>, the type is the parenthesized argument found in the comment,
  whatever it is; without an argument that is the empty string and not the default.
\<close>

theorem getFieldJavascriptType_json_annotated:
  assumes "getFieldKnownMySQLType types col = Some ''json''"
    and "hasColumnCommentAnnotation ''json'' col"
  shows "javascriptType (parseFieldDefinition camelCase types col settings)
           = getParenthesizedArgs (Comment col) ''@json''"
  using assms
  by (simp add: parseFieldDefinition_def getFieldCastType_def getFieldJavascriptType_def Let_def)

text \<open>
  At a \<^verbatim>\<open>json\<close> column with the comment \<^verbatim>\<open>@json\<close> and default settings the type is the
  empty string, not \<^verbatim>\<open>unknown\<close>.
\<close>

theorem getFieldJavascriptType_json_annotated_witness:
  "getFieldKnownMySQLType KNOWN_MYSQL_TYPES (exampleColumn ''json'' ''@json'') = Some ''json''
   \<and> hasColumnCommentAnnotation ''json'' (exampleColumn ''json'' ''@json'')
   \<and> javascriptType (parseFieldDefinition id KNOWN_MYSQL_TYPES (exampleColumn ''json'' ''@json'')
        defaultSettings) = []
   \<and> javascriptType (parseFieldDefinition id KNOWN_MYSQL_TYPES (exampleColumn ''json'' ''@json'')
        defaultSettings) \<noteq> DEFAULT_JSON_FIELD_TYPE"
proof -
  have h: "getFieldKnownMySQLType KNOWN_MYSQL_TYPES (exampleColumn ''json'' ''@json'') = Some ''json''"
    by code_simp
  have a: "hasColumnCommentAnnotation ''json'' (exampleColumn ''json'' ''@json'')"
    by code_simp
  have g: "getParenthesizedArgs (Comment (exampleColumn ''json'' ''@json'')) ''@json'' = []"
    by code_simp
  show ?thesis
    using h a getFieldJavascriptType_json_annotated [OF h a, of id defaultSettings]
    by (simp add: g DEFAULT_JSON_FIELD_TYPE_def)
qed

text \<open>Without the annotation the type of a \<^verbatim>\<open>json\<close> column is the default.\<close>

lemma getFieldJavascriptType_json_plain:
  "javascriptType (parseFieldDefinition id KNOWN_MYSQL_TYPES (exampleColumn ''json'' [])
        defaultSettings) = ''unknown''"
  by code_simp

text \<open>
  The \<^verbatim>\<open>Field\<close> class does what the claim says. When the first \<^verbatim>\<open>@json\<close> (or \<^verbatim>\<open>@enum\<close>)
  annotation of the comment has no argument, or an empty or blank one, the getter
  \<^verbatim>\<open>jsonAnnotation\<close> (or \<^verbatim>\<open>enumAnnotation\<close>) returns nothing, and cast type and type are
  those of the same column with an empty comment.
\<close>

lemma requiresArgument_blank:
  assumes "found = Some a"
    and "typeArgument a = None \<or> (\<exists>arg. typeArgument a = Some arg \<and> trim arg = [])"
  shows "requiresArgument found = None"
  using assms by (auto simp add: requiresArgument_def)

lemma Field_typeAnnotations_empty_comment: "Field_typeAnnotations (col\<lparr>Comment := []\<rparr>) = []"
  by (simp add: Field_typeAnnotations_def matchAll_def matchAt_def typeAnnotationsRx_def
        oneOrMore_def opt_def ci_def)

lemma Field_mysqlBaseType_comment:
  "Field_mysqlBaseType types (col\<lparr>Comment := cm\<rparr>) = Field_mysqlBaseType types col"
  by (simp add: Field_mysqlBaseType_def)

lemma Field_json_blank_argument:
  assumes "Field_mysqlBaseType types col = Some ''json''"
    and "find (\<lambda>a. annotation a = ''json'') (Field_typeAnnotations col) = Some a"
    and "typeArgument a = None \<or> (\<exists>arg. typeArgument a = Some arg \<and> trim arg = [])"
  shows "Field_jsonAnnotation col = None"
    and "Field_castType types col = CastJson"
    and "Field_javascriptType types col = DEFAULT_JSON_FIELD_TYPE"
    and "Field_castType types col = Field_castType types (col\<lparr>Comment := []\<rparr>)"
    and "Field_javascriptType types col = Field_javascriptType types (col\<lparr>Comment := []\<rparr>)"
proof -
  show n: "Field_jsonAnnotation col = None"
    using assms(2,3) by (simp add: Field_jsonAnnotation_def requiresArgument_blank)
  show c: "Field_castType types col = CastJson"
    using assms(1) by (simp add: Field_castType_def Let_def)
  show j: "Field_javascriptType types col = DEFAULT_JSON_FIELD_TYPE"
    using n c by (simp add: Field_javascriptType_def Let_def)
  have c': "Field_castType types (col\<lparr>Comment := []\<rparr>) = CastJson"
    using assms(1) by (simp add: Field_castType_def Field_mysqlBaseType_comment Let_def)
  have n': "Field_jsonAnnotation (col\<lparr>Comment := []\<rparr>) = None"
    by (simp add: Field_jsonAnnotation_def Field_typeAnnotations_empty_comment requiresArgument_def)
  show "Field_castType types col = Field_castType types (col\<lparr>Comment := []\<rparr>)"
    using c c' by simp
  show "Field_javascriptType types col = Field_javascriptType types (col\<lparr>Comment := []\<rparr>)"
    using j c' n' by (simp add: Field_javascriptType_def Let_def)
qed

lemma Field_enum_blank_argument:
  assumes "Field_mysqlBaseType types col = Some ''enum''"
    and "find (\<lambda>a. annotation a = ''enum'') (Field_typeAnnotations col) = Some a"
    and "typeArgument a = None \<or> (\<exists>arg. typeArgument a = Some arg \<and> trim arg = [])"
  shows "Field_enumAnnotation col = None"
    and "Field_javascriptType types col =
           (let strings = definitionLiterals (Type col) ''enum''
            in if length strings > 0 then strings else ''string'')"
    and "Field_castType types col = Field_castType types (col\<lparr>Comment := []\<rparr>)"
    and "Field_javascriptType types col = Field_javascriptType types (col\<lparr>Comment := []\<rparr>)"
proof -
  show n: "Field_enumAnnotation col = None"
    using assms(2,3) by (simp add: Field_enumAnnotation_def requiresArgument_blank)
  have c: "Field_castType types col = CastString"
    using assms(1) by (rule Field_castType_enum)
  show j: "Field_javascriptType types col =
           (let strings = definitionLiterals (Type col) ''enum''
            in if length strings > 0 then strings else ''string'')"
    using n c assms(1) by (simp add: Field_javascriptType_def Let_def)
  have b': "Field_mysqlBaseType types (col\<lparr>Comment := []\<rparr>) = Some ''enum''"
    using assms(1) by (simp add: Field_mysqlBaseType_comment)
  have c': "Field_castType types (col\<lparr>Comment := []\<rparr>) = CastString"
    using b' by (rule Field_castType_enum)
  have n': "Field_enumAnnotation (col\<lparr>Comment := []\<rparr>) = None"
    by (simp add: Field_enumAnnotation_def Field_typeAnnotations_empty_comment requiresArgument_def)
  show "Field_castType types col = Field_castType types (col\<lparr>Comment := []\<rparr>)"
    using c c' by simp
  show "Field_javascriptType types col = Field_javascriptType types (col\<lparr>Comment := []\<rparr>)"
    using j c' n' b' by (simp add: Field_javascriptType_def Let_def)
qed

lemma Field_blank_argument_examples:
  "Field_javascriptType KNOWN_MYSQL_TYPES (exampleColumn ''json'' ''@json'') = ''unknown''"
  "Field_javascriptType KNOWN_MYSQL_TYPES (exampleColumn ''json'' ''@json()'') = ''unknown''"
  "Field_javascriptType KNOWN_MYSQL_TYPES (exampleColumn ''json'' ''@json(Foo)'') = ''Foo''"
  "Field_javascriptType KNOWN_MYSQL_TYPES (exampleColumn ''enum('a','b')'' ''@enum'')
     = CHR 0x27 # ''a'|'b'' @ [CHR 0x27]"
  "Field_javascriptType KNOWN_MYSQL_TYPES (exampleColumn ''enum('a','b')'' ''@enum( )'')
     = CHR 0x27 # ''a'|'b'' @ [CHR 0x27]"
  "Field_javascriptType KNOWN_MYSQL_TYPES (exampleColumn ''enum('a','b')'' ''@enum(Size)'') = ''Size''"
  by code_simp+

section \<open>The database classes\<close>

subsection \<open>Helper facts\<close>

lemma find_filter_hd: "find P xs = (case filter P xs of [] \<Rightarrow> None | x # _ \<Rightarrow> Some x)"
  by (induction xs) auto

lemma foldl_upd_map:
  "foldl (\<lambda>acc k. acc(k \<mapsto> g k)) m0 ks = (\<lambda>k. if k \<in> set ks then Some (g k) else m0 k)"
  by (induction ks arbitrary: m0) (auto simp add: fun_eq_iff)

lemma primaryKeyFromData_eq:
  "primaryKeyFromData db data = (\<lambda>k. if k \<in> set (primaryKeys db) then Some (getProp data k) else None)"
  by (simp add: primaryKeyFromData_def foldl_upd_map)

lemma execute_ok:
  "connOrTx db (requestOf q cmc) (database w) = (Inr r, c') \<Longrightarrow>
   execute db q cmc w =
     (Inr r, \<lparr>database = c', sent = sent w @ [requestOf q cmc],
              hookLog = performanceLoggerOf db r (hookLog w)\<rparr>)"
  by (simp add: execute_def)

lemma execute_fail:
  "connOrTx db (requestOf q cmc) (database w) = (Inl err, c') \<Longrightarrow>
   execute db q cmc w =
     (Inl (Error ''Internal server error.''),
      \<lparr>database = c', sent = sent w @ [requestOf q cmc],
       hookLog = errorLoggerOf db (newExecuteError err q) (hookLog w)\<rparr>)"
  by (simp add: execute_def)

lemma MAX_SAFE_INTEGER_power: "MAX_SAFE_INTEGER = 2 ^ 53 - 1"
  by (simp add: MAX_SAFE_INTEGER_def)

subsection \<open>\<^verbatim>\<open>create\<close>\<close>

text \<open>
  Claim C6. When the INSERT statement of \<^verbatim>\<open>create\<close> has been built and the connection has
  answered it with a result: on a model whose only auto-increment field is its primary
  key \<^verbatim>\<open>id\<close>, \<^verbatim>\<open>create\<close> returns the object with the one property \<^verbatim>\<open>id\<close>, holding the
  result's insert id; on a model with no auto-increment field it returns the object that
  maps every primary-key field name to the value the caller's data has for it
  (\<^verbatim>\<open>undefined\<close> where the data has none), and nothing else.
\<close>

theorem create_returns_primary_key:
  assumes "createQuery u db data = Inr q"
    and "connOrTx db (requestOf q None) (database w) = (Inr r, c')"
  shows "(filter isAutoIncrement (model_fields (model db)) = [f] \<and> isPrimaryKey f \<and> fieldName f = ''id''
            \<longrightarrow> fst (create u db data w) = Inr [''id'' \<mapsto> JString (insertId r)])
       \<and> ((\<forall>g \<in> set (model_fields (model db)). \<not> isAutoIncrement g)
            \<longrightarrow> fst (create u db data w)
                  = Inr (\<lambda>k. if k \<in> set (primaryKeys db) then Some (getProp data k) else None))"
proof (intro conjI impI)
  assume "filter isAutoIncrement (model_fields (model db)) = [f] \<and> isPrimaryKey f \<and> fieldName f = ''id''"
  then have "autoIncrementingPrimaryKey db = Some ''id''"
    by (simp add: autoIncrementingPrimaryKey_def find_filter_hd)
  then show "fst (create u db data w) = Inr [''id'' \<mapsto> JString (insertId r)]"
    using assms by (simp add: create_def execute_ok)
next
  assume "\<forall>g \<in> set (model_fields (model db)). \<not> isAutoIncrement g"
  then have "filter isAutoIncrement (model_fields (model db)) = []"
    by (simp add: filter_empty_conv)
  then have "autoIncrementingPrimaryKey db = None"
    by (simp add: autoIncrementingPrimaryKey_def find_filter_hd)
  then show "fst (create u db data w)
               = Inr (\<lambda>k. if k \<in> set (primaryKeys db) then Some (getProp data k) else None)"
    using assms by (simp add: create_def execute_ok primaryKeyFromData_eq)
qed

text \<open>
  On the model with the fields \<^verbatim>\<open>id\<close> (auto-increment, primary key) and \<^verbatim>\<open>title\<close>, with a
  connection that answers with the insert id \<^verbatim>\<open>42\<close>, \<^verbatim>\<open>create\<close> returns \<^verbatim>\<open>{id: '42'}\<close>. On
  the model with the primary key \<^verbatim>\<open>a\<close>, \<^verbatim>\<open>b\<close> it returns \<^verbatim>\<open>{a: 1, b: 2}\<close> from the data.
\<close>

theorem create_returns_primary_key_witness:
  "createQuery exampleUtils (exampleDb (answering ([] :: unit list)) postFields) [(''title'', JString ''x'')]
     = Inr [Text ''INSERT INTO '', Text ''`post`'', Text '' ('', Text ''`post`.`title`'',
            Text '') VALUES ('', Value (JString ''x''), Text '')'']
   \<and> filter isAutoIncrement (model_fields (model (exampleDb (answering ([] :: unit list)) postFields)))
       = [exampleField ''id'' True True]
   \<and> isPrimaryKey (exampleField ''id'' True True)
   \<and> fieldName (exampleField ''id'' True True) = ''id''
   \<and> fst (create exampleUtils (exampleDb (answering ([] :: unit list)) postFields)
            [(''title'', JString ''x'')] exampleWorld)
       = Inr [''id'' \<mapsto> JString ''42'']
   \<and> filter isAutoIncrement (model_fields (model (exampleDb (answering ([] :: unit list)) memberFields)))
       = []
   \<and> fst (create exampleUtils (exampleDb (answering ([] :: unit list)) memberFields)
            [(''a'', JNumber 1), (''b'', JNumber 2), (''note'', JString ''n'')] exampleWorld)
       = Inr [''a'' \<mapsto> JNumber 1, ''b'' \<mapsto> JNumber 2]"
proof -
  let ?post = "exampleDb (answering ([] :: unit list)) postFields"
  let ?member = "exampleDb (answering ([] :: unit list)) memberFields"
  let ?data = "[(''a'', JNumber 1), (''b'', JNumber 2), (''note'', JString ''n'')]"
  have q1: "createQuery exampleUtils ?post [(''title'', JString ''x'')]
     = Inr [Text ''INSERT INTO '', Text ''`post`'', Text '' ('', Text ''`post`.`title`'',
            Text '') VALUES ('', Value (JString ''x''), Text '')'']"
    by code_simp
  have r1: "connOrTx ?post
              (requestOf [Text ''INSERT INTO '', Text ''`post`'', Text '' ('', Text ''`post`.`title`'',
                          Text '') VALUES ('', Value (JString ''x''), Text '')''] None)
              (database exampleWorld)
            = (Inr \<lparr>rows = [], insertId = ''42''\<rparr>, ())"
    by (simp add: exampleDb_def answering_def)
  have a1: "filter isAutoIncrement (model_fields (model ?post)) = [exampleField ''id'' True True]"
    by (simp add: exampleDb_def postFields_def exampleField_def)
  have b1: "isPrimaryKey (exampleField ''id'' True True)" "fieldName (exampleField ''id'' True True) = ''id''"
    by (simp_all add: exampleField_def)
  obtain q2 where q2: "createQuery exampleUtils ?member ?data = Inr q2"
    by (cases "createQuery exampleUtils ?member ?data")
       (simp_all add: createQuery_def encodeValue_def getProp_def jsonKeys_def setKeys_def
          exampleDb_def memberFields_def exampleField_def exampleUtils_def Let_def)
  have r2: "connOrTx ?member (requestOf q2 None) (database exampleWorld)
            = (Inr \<lparr>rows = [], insertId = ''42''\<rparr>, ())"
    by (simp add: exampleDb_def answering_def)
  have a2: "\<forall>g \<in> set (model_fields (model ?member)). \<not> isAutoIncrement g"
    by (simp add: exampleDb_def memberFields_def exampleField_def)
  have pks: "primaryKeys ?member = [''a'', ''b'']"
    by (simp add: primaryKeys_def exampleDb_def memberFields_def exampleField_def)
  have m: "(\<lambda>k. if k \<in> set (primaryKeys ?member) then Some (getProp ?data k) else None)
             = [''a'' \<mapsto> JNumber 1, ''b'' \<mapsto> JNumber 2]"
    by (rule ext) (simp add: pks getProp_def)
  show ?thesis
    using q1 a1 b1 a2 m filter_empty_conv [of isAutoIncrement "model_fields (model ?member)"]
      create_returns_primary_key [OF q1 r1, where f = "exampleField ''id'' True True"]
      create_returns_primary_key [OF q2 r2, where f = "exampleField ''id'' True True"]
    by simp
qed

text \<open>
  Claim C10. \<^verbatim>\<open>create\<close> picks the key to return by the first field whose \<^verbatim>\<open>isAutoIncrement\<close>
  is true, and never asks whether that field is a primary key. The source makes the choice
  by the test \<^verbatim>\<open>if (autoGeneratedPrimaryKey)\<close> on that field's name, and the empty string
  fails the test like \<^verbatim>\<open>null\<close> does. So the claim holds in this form: when the first
  auto-increment field has a name that is not empty, the result is the object with that
  name as its one property, holding the insert id, whether or not the field is a primary
  key; when no field is auto-increment, the result maps every primary-key field name to
  the value the caller's data have for it (\<^verbatim>\<open>undefined\<close> where they have none), and has
  no other property.
\<close>

theorem create_keyed_on_first_auto_increment:
  assumes "createQuery u db data = Inr q"
    and "connOrTx db (requestOf q None) (database w) = (Inr r, c')"
  shows "(find isAutoIncrement (model_fields (model db)) = Some f \<and> fieldName f \<noteq> []
            \<longrightarrow> fst (create u db data w) = Inr [fieldName f \<mapsto> JString (insertId r)])
       \<and> (find isAutoIncrement (model_fields (model db)) = None
            \<longrightarrow> fst (create u db data w)
                  = Inr (\<lambda>k. if k \<in> fieldName ` {g \<in> set (model_fields (model db)). isPrimaryKey g}
                              then Some (case map_of data k of None \<Rightarrow> JUndefined | Some v \<Rightarrow> v)
                              else None))"
proof (intro conjI impI)
  assume "find isAutoIncrement (model_fields (model db)) = Some f \<and> fieldName f \<noteq> []"
  then show "fst (create u db data w) = Inr [fieldName f \<mapsto> JString (insertId r)]"
    using assms by (simp add: create_def execute_ok autoIncrementingPrimaryKey_def)
next
  assume "find isAutoIncrement (model_fields (model db)) = None"
  then have "fst (create u db data w) = Inr (primaryKeyFromData db data)"
    using assms by (simp add: create_def execute_ok autoIncrementingPrimaryKey_def)
  moreover have "primaryKeyFromData db data
      = (\<lambda>k. if k \<in> fieldName ` {g \<in> set (model_fields (model db)). isPrimaryKey g}
              then Some (case map_of data k of None \<Rightarrow> JUndefined | Some v \<Rightarrow> v)
              else None)"
    by (rule ext) (simp add: primaryKeyFromData_eq primaryKeys_def getProp_def)
  ultimately show "fst (create u db data w)
                  = Inr (\<lambda>k. if k \<in> fieldName ` {g \<in> set (model_fields (model db)). isPrimaryKey g}
                              then Some (case map_of data k of None \<Rightarrow> JUndefined | Some v \<Rightarrow> v)
                              else None)"
    by simp
qed

text \<open>
  On the model with the primary key \<^verbatim>\<open>uuid\<close> and the auto-increment field \<^verbatim>\<open>seq\<close>, which
  is not a primary key, \<^verbatim>\<open>create\<close> returns \<^verbatim>\<open>{seq: '42'}\<close> although the data give \<^verbatim>\<open>uuid\<close>.
  On the model with the key \<^verbatim>\<open>a\<close>, \<^verbatim>\<open>b\<close> and no auto-increment field, the data
  \<^verbatim>\<open>{note: 'n', a: 4}\<close> give \<^verbatim>\<open>{a: 4, b: undefined}\<close>.
\<close>

theorem create_keyed_on_first_auto_increment_witness:
  "find isAutoIncrement (model_fields (model (exampleDb (answering ([] :: unit list)) eventFields)))
     = Some (exampleField ''seq'' True False)
   \<and> \<not> isPrimaryKey (exampleField ''seq'' True False)
   \<and> fieldName (exampleField ''seq'' True False) \<noteq> []
   \<and> fst (create exampleUtils (exampleDb (answering ([] :: unit list)) eventFields)
            [(''uuid'', JString ''u1'')] exampleWorld)
       = Inr [''seq'' \<mapsto> JString ''42'']
   \<and> find isAutoIncrement (model_fields (model (exampleDb (answering ([] :: unit list)) memberFields)))
       = None
   \<and> fst (create exampleUtils (exampleDb (answering ([] :: unit list)) memberFields)
            [(''note'', JString ''n''), (''a'', JNumber 4)] exampleWorld)
       = Inr [''a'' \<mapsto> JNumber 4, ''b'' \<mapsto> JUndefined]"
proof -
  let ?event = "exampleDb (answering ([] :: unit list)) eventFields"
  let ?member = "exampleDb (answering ([] :: unit list)) memberFields"
  let ?data = "[(''note'', JString ''n''), (''a'', JNumber 4)]"
  obtain q1 where q1: "createQuery exampleUtils ?event [(''uuid'', JString ''u1'')] = Inr q1"
    by (cases "createQuery exampleUtils ?event [(''uuid'', JString ''u1'')]")
       (simp_all add: createQuery_def encodeValue_def getProp_def jsonKeys_def setKeys_def
          exampleDb_def eventFields_def exampleField_def exampleUtils_def Let_def)
  have r1: "connOrTx ?event (requestOf q1 None) (database exampleWorld)
            = (Inr \<lparr>rows = [], insertId = ''42''\<rparr>, ())"
    by (simp add: exampleDb_def answering_def)
  have a1: "find isAutoIncrement (model_fields (model ?event)) = Some (exampleField ''seq'' True False)"
    by (simp add: exampleDb_def eventFields_def exampleField_def)
  have b1: "\<not> isPrimaryKey (exampleField ''seq'' True False)"
    "fieldName (exampleField ''seq'' True False) = ''seq''"
    by (simp_all add: exampleField_def)
  obtain q2 where q2: "createQuery exampleUtils ?member ?data = Inr q2"
    by (cases "createQuery exampleUtils ?member ?data")
       (simp_all add: createQuery_def encodeValue_def getProp_def jsonKeys_def setKeys_def
          exampleDb_def memberFields_def exampleField_def exampleUtils_def Let_def)
  have r2: "connOrTx ?member (requestOf q2 None) (database exampleWorld)
            = (Inr \<lparr>rows = [], insertId = ''42''\<rparr>, ())"
    by (simp add: exampleDb_def answering_def)
  have a2: "find isAutoIncrement (model_fields (model ?member)) = None"
    by (simp add: exampleDb_def memberFields_def exampleField_def)
  have m: "(\<lambda>k. if k \<in> fieldName ` {g \<in> set (model_fields (model ?member)). isPrimaryKey g}
                then Some (case map_of ?data k of None \<Rightarrow> JUndefined | Some v \<Rightarrow> v)
                else None)
             = [''a'' \<mapsto> JNumber 4, ''b'' \<mapsto> JUndefined]"
  proof -
    have pks: "primaryKeys ?member = [''a'', ''b'']"
      by (simp add: primaryKeys_def exampleDb_def memberFields_def exampleField_def)
    have "fieldName ` {g \<in> set (model_fields (model ?member)). isPrimaryKey g}
            = set (primaryKeys ?member)"
      by (simp add: primaryKeys_def)
    then show ?thesis
      by (simp only: pks) (rule ext, simp)
  qed
  show ?thesis
    using a1 b1 a2 m
      create_keyed_on_first_auto_increment [OF q1 r1, where f = "exampleField ''seq'' True False"]
      create_keyed_on_first_auto_increment [OF q2 r2, where f = "exampleField ''seq'' True False"]
    by simp
qed

text \<open>
  Without the condition on the name the claim fails. On the model whose first field is
  auto-increment with the empty name, beside the primary key \<^verbatim>\<open>uuid\<close>, \<^verbatim>\<open>create\<close> with
  the data \<^verbatim>\<open>{uuid: 'u1'}\<close> returns \<^verbatim>\<open>{uuid: 'u1'}\<close> taken from the data, not the object
  keyed on the auto-increment field with the insert id \<^verbatim>\<open>42\<close>.
\<close>

theorem create_empty_name_counterexample:
  "find isAutoIncrement
     (model_fields (model (exampleDb (answering ([] :: unit list))
        [exampleField [] True False, exampleField ''uuid'' False True])))
     = Some (exampleField [] True False)
   \<and> fst (create exampleUtils
            (exampleDb (answering ([] :: unit list))
               [exampleField [] True False, exampleField ''uuid'' False True])
            [(''uuid'', JString ''u1'')] exampleWorld)
       = Inr [''uuid'' \<mapsto> JString ''u1'']
   \<and> fst (create exampleUtils
            (exampleDb (answering ([] :: unit list))
               [exampleField [] True False, exampleField ''uuid'' False True])
            [(''uuid'', JString ''u1'')] exampleWorld)
       \<noteq> Inr [fieldName (exampleField [] True False) \<mapsto> JString ''42'']"
proof -
  let ?db = "exampleDb (answering ([] :: unit list))
               [exampleField [] True False, exampleField ''uuid'' False True]"
  let ?data = "[(''uuid'', JString ''u1'')]"
  have a: "find isAutoIncrement (model_fields (model ?db)) = Some (exampleField [] True False)"
    by (simp add: exampleDb_def exampleField_def)
  have k: "autoIncrementingPrimaryKey ?db = Some []"
    by (simp add: autoIncrementingPrimaryKey_def exampleDb_def exampleField_def)
  obtain q where q: "createQuery exampleUtils ?db ?data = Inr q"
    by (cases "createQuery exampleUtils ?db ?data")
       (simp_all add: createQuery_def encodeValue_def getProp_def jsonKeys_def setKeys_def
          exampleDb_def exampleField_def exampleUtils_def Let_def)
  have r: "connOrTx ?db (requestOf q None) (database exampleWorld)
            = (Inr \<lparr>rows = [], insertId = ''42''\<rparr>, ())"
    by (simp add: exampleDb_def answering_def)
  have pks: "primaryKeys ?db = [''uuid'']"
    by (simp add: primaryKeys_def exampleDb_def exampleField_def)
  have c: "fst (create exampleUtils ?db ?data exampleWorld) = Inr (primaryKeyFromData ?db ?data)"
    using q r k by (simp add: create_def execute_ok)
  have m: "primaryKeyFromData ?db ?data = [''uuid'' \<mapsto> JString ''u1'']"
    by (rule ext) (simp add: primaryKeyFromData_def pks getProp_def)
  have d: "[''uuid'' \<mapsto> JString ''u1''] \<noteq> [fieldName (exampleField [] True False) \<mapsto> JString ''42'']"
  proof
    assume "[''uuid'' \<mapsto> JString ''u1''] = [fieldName (exampleField [] True False) \<mapsto> JString ''42'']"
    then have "[''uuid'' \<mapsto> JString ''u1''] ''uuid''
                 = [fieldName (exampleField [] True False) \<mapsto> JString ''42''] ''uuid''"
      by (rule fun_cong)
    then show False by (simp add: exampleField_def)
  qed
  show ?thesis using a c m d by simp
qed

subsection \<open>\<^verbatim>\<open>count\<close> and \<^verbatim>\<open>countBigInt\<close>\<close>

text \<open>
  Claim C7. The value \<^verbatim>\<open>countBigInt\<close> returns is the \<^verbatim>\<open>ct\<close> of the first row the
  connection answers with (zero when there is no row), whatever its size. \<^verbatim>\<open>count\<close> fails
  with its overflow error when that value is greater than \<^verbatim>\<open>Number.MAX_SAFE_INTEGER\<close>,
  which is \<open>9007199254740991\<close>, and returns the value as a number otherwise.
  \<^verbatim>\<open>countBigInt\<close> has no overflow error of its own: when it fails, the error is the fixed
  error of \<^const>\<open>execute\<close> or the one the where-clause builder threw.
\<close>

theorem count_overflow:
  "(countBigInt u db wh w = (Inr n, w') \<longrightarrow>
      count u db wh w =
        (if n > 9007199254740991
         then Inl (Error ''count returned a number greater than Number.MAX_SAFE_INTEGER'')
         else Inr (Number n), w'))
   \<and> (countQuery u db wh = Inr q \<and>
        connOrTx db (requestOf q (Some [(''ct'', CastBigint)])) (database w) = (Inr r, c')
        \<longrightarrow> fst (countBigInt u db wh w) = Inr (case rows r of [] \<Rightarrow> 0 | x # _ \<Rightarrow> ct x))
   \<and> (fst (countBigInt u db wh w) = Inl e \<longrightarrow>
        e = Error ''Internal server error.'' \<or> getWhere u wh (tableName (model db)) = Inl e)"
proof (intro conjI impI)
  assume "countBigInt u db wh w = (Inr n, w')"
  then show "count u db wh w =
        (if n > 9007199254740991
         then Inl (Error ''count returned a number greater than Number.MAX_SAFE_INTEGER'')
         else Inr (Number n), w')"
    by (simp add: count_def MAX_SAFE_INTEGER_def)
next
  assume "countQuery u db wh = Inr q \<and>
        connOrTx db (requestOf q (Some [(''ct'', CastBigint)])) (database w) = (Inr r, c')"
  then show "fst (countBigInt u db wh w) = Inr (case rows r of [] \<Rightarrow> 0 | x # _ \<Rightarrow> ct x)"
    by (simp add: countBigInt_def executeSelect_def execute_ok)
next
  assume "fst (countBigInt u db wh w) = Inl e"
  then show "e = Error ''Internal server error.'' \<or> getWhere u wh (tableName (model db)) = Inl e"
    by (auto simp add: countBigInt_def countQuery_def executeSelect_def execute_def
          split: sum.splits prod.splits)
qed

text \<open>
  With a connection that answers \<open>9007199254740992\<close>, \<^verbatim>\<open>countBigInt\<close> returns that value
  and \<^verbatim>\<open>count\<close> fails with the overflow error; with \<open>9007199254740991\<close> both return it;
  with a connection that throws, \<^verbatim>\<open>countBigInt\<close> fails with the fixed error.
\<close>

theorem count_overflow_witness:
  "fst (countBigInt exampleUtils (exampleDb (answering [\<lparr>ct = 9007199254740992\<rparr>]) postFields) ()
          exampleWorld) = Inr 9007199254740992
   \<and> fst (count exampleUtils (exampleDb (answering [\<lparr>ct = 9007199254740992\<rparr>]) postFields) ()
          exampleWorld)
       = Inl (Error ''count returned a number greater than Number.MAX_SAFE_INTEGER'')
   \<and> fst (countBigInt exampleUtils (exampleDb (answering [\<lparr>ct = 9007199254740991\<rparr>]) postFields) ()
          exampleWorld) = Inr 9007199254740991
   \<and> fst (count exampleUtils (exampleDb (answering [\<lparr>ct = 9007199254740991\<rparr>]) postFields) ()
          exampleWorld) = Inr (Number 9007199254740991)
   \<and> fst (countBigInt exampleUtils (exampleDb (failing (Error ''boom'')) postFields) () exampleWorld)
       = Inl (Error ''Internal server error.'')"
proof -
  let ?big = "exampleDb (answering [\<lparr>ct = 9007199254740992\<rparr>]) postFields"
  let ?max = "exampleDb (answering [\<lparr>ct = 9007199254740991\<rparr>]) postFields"
  let ?bad = "exampleDb (failing (Error ''boom'')) postFields :: (ct_row, unit, ExecuteError list) ModelDb"
  let ?q = "[Text ''SELECT COUNT(*) AS `ct` FROM '', Text ''`post`'', Text '' '']"
  have q1: "countQuery exampleUtils ?big () = Inr ?q"
    by (simp add: countQuery_def exampleUtils_def exampleDb_def)
  have q2: "countQuery exampleUtils ?max () = Inr ?q"
    by (simp add: countQuery_def exampleUtils_def exampleDb_def)
  have r1: "connOrTx ?big (requestOf ?q (Some [(''ct'', CastBigint)])) (database exampleWorld)
              = (Inr \<lparr>rows = [\<lparr>ct = 9007199254740992\<rparr>], insertId = ''42''\<rparr>, ())"
    by (simp add: exampleDb_def answering_def)
  have r2: "connOrTx ?max (requestOf ?q (Some [(''ct'', CastBigint)])) (database exampleWorld)
              = (Inr \<lparr>rows = [\<lparr>ct = 9007199254740991\<rparr>], insertId = ''42''\<rparr>, ())"
    by (simp add: exampleDb_def answering_def)
  have b1: "fst (countBigInt exampleUtils ?big () exampleWorld) = Inr 9007199254740992"
    using count_overflow [of exampleUtils ?big "()" exampleWorld _ _ ?q] q1 r1 by simp
  have b2: "fst (countBigInt exampleUtils ?max () exampleWorld) = Inr 9007199254740991"
    using count_overflow [of exampleUtils ?max "()" exampleWorld _ _ ?q] q2 r2 by simp
  obtain w1 where w1: "countBigInt exampleUtils ?big () exampleWorld = (Inr 9007199254740992, w1)"
    using b1 by (cases "countBigInt exampleUtils ?big () exampleWorld") simp
  obtain w2 where w2: "countBigInt exampleUtils ?max () exampleWorld = (Inr 9007199254740991, w2)"
    using b2 by (cases "countBigInt exampleUtils ?max () exampleWorld") simp
  have c1: "fst (count exampleUtils ?big () exampleWorld)
              = Inl (Error ''count returned a number greater than Number.MAX_SAFE_INTEGER'')"
    using count_overflow [of exampleUtils ?big "()" exampleWorld 9007199254740992 w1] w1 by simp
  have c2: "fst (count exampleUtils ?max () exampleWorld) = Inr (Number 9007199254740991)"
    using count_overflow [of exampleUtils ?max "()" exampleWorld 9007199254740991 w2] w2 by simp
  obtain e where e: "fst (countBigInt exampleUtils ?bad () exampleWorld) = Inl e"
    by (simp add: countBigInt_def countQuery_def executeSelect_def execute_def exampleUtils_def
          exampleDb_def failing_def)
  have g: "getWhere exampleUtils () (tableName (model ?bad)) \<noteq> Inl e"
    by (simp add: exampleUtils_def)
  have f1: "fst (countBigInt exampleUtils ?bad () exampleWorld) = Inl (Error ''Internal server error.'')"
    using count_overflow [of exampleUtils ?bad "()" exampleWorld _ _ _ _ _ e] e g by simp
  show ?thesis using b1 b2 c1 c2 f1 by simp
qed

subsection \<open>\<^verbatim>\<open>findMany\<close> with an unknown field in \<^verbatim>\<open>select\<close>\<close>

lemma mapE_first_unknown:
  assumes "find (\<lambda>x. x \<notin> fieldName ` set (model_fields (model db))) names = Some n0"
  shows "mapE (getSelectForFieldName u db) names
           = Inl (Error (''Invalid select: the field named '' @ n0 @ '' does not exist.''))"
  using assms
proof (induction names)
  case Nil
  then show ?case by simp
next
  case (Cons n names)
  show ?case
  proof (cases "n \<in> fieldName ` set (model_fields (model db))")
    case True
    then obtain fd where "find (\<lambda>f. fieldName f = n) (model_fields (model db)) = Some fd"
      by (cases "find (\<lambda>f. fieldName f = n) (model_fields (model db))")
         (auto simp add: find_None_iff)
    with True Cons show ?thesis
      by (simp add: getSelectForFieldName_def)
  next
    case False
    then have "find (\<lambda>f. fieldName f = n) (model_fields (model db)) = None"
      by (auto simp add: find_None_iff)
    with False Cons.prems show ?thesis
      by (simp add: getSelectForFieldName_def)
  qed
qed

text \<open>
  Claim C8. When \<^verbatim>\<open>select\<close> is a list that contains a name that is not a field of the
  model, \<^verbatim>\<open>findMany\<close> fails and leaves the world as it was: no statement is built, no
  request reaches the connection and no hook runs. \<^verbatim>\<open>findMany\<close> builds the where, order
  and limit clauses before it looks at \<^verbatim>\<open>select\<close>; when none of these builders throws,
  the error is \<^verbatim>\<open>Invalid select: the field named ... does not exist.\<close>, naming the first
  unknown name of the list.
\<close>

theorem findMany_invalid_select:
  assumes "fm_select input = SelectFields names"
    and "n \<in> set names"
    and "n \<notin> fieldName ` set (model_fields (model db))"
  shows "(\<exists>e. findManyQuery u db input = Inl e \<and> findMany u db input w = (Inl e, w))
       \<and> ((\<exists>wh ob lim. getWhere u (fm_where input) (tableName (model db)) = Inr wh
              \<and> getOrderBy u (fm_orderBy input) (tableName (model db)) = Inr ob
              \<and> getLimitOffset u (fm_paging input) = Inr lim)
            \<longrightarrow> (\<exists>n0. find (\<lambda>x. x \<notin> fieldName ` set (model_fields (model db))) names = Some n0
                  \<and> findMany u db input w
                      = (Inl (Error (''Invalid select: the field named '' @ n0 @ '' does not exist.'')),
                         w)))"
proof -
  from assms(2,3) obtain n0
    where n0: "find (\<lambda>x. x \<notin> fieldName ` set (model_fields (model db))) names = Some n0"
    by (cases "find (\<lambda>x. x \<notin> fieldName ` set (model_fields (model db))) names")
       (auto simp add: find_None_iff)
  from assms(2) have ne: "names \<noteq> []" by auto
  have sel: "selectColumns u db (fm_select input)
               = Inl (Error (''Invalid select: the field named '' @ n0 @ '' does not exist.''))"
    using assms(1) ne n0 by (simp add: selectColumns_def mapE_first_unknown)
  have "\<exists>e. findManyQuery u db input = Inl e \<and> findMany u db input w = (Inl e, w)"
    using sel by (auto simp add: findMany_def findManyQuery_def split: sum.splits)
  moreover have "(\<exists>wh ob lim. getWhere u (fm_where input) (tableName (model db)) = Inr wh
              \<and> getOrderBy u (fm_orderBy input) (tableName (model db)) = Inr ob
              \<and> getLimitOffset u (fm_paging input) = Inr lim)
            \<longrightarrow> findMany u db input w
                  = (Inl (Error (''Invalid select: the field named '' @ n0 @ '' does not exist.'')), w)"
    using sel by (auto simp add: findMany_def findManyQuery_def)
  ultimately show ?thesis using n0 by blast
qed

text \<open>
  On the model with the fields \<^verbatim>\<open>id\<close> and \<^verbatim>\<open>title\<close>, \<^verbatim>\<open>select: ['id', 'x']\<close> fails with the
  error naming \<^verbatim>\<open>x\<close>, and the list of requests sent stays empty.
\<close>

theorem findMany_invalid_select_witness:
  "fm_select (exampleInput (SelectFields [''id'', ''x''])) = SelectFields [''id'', ''x'']
   \<and> ''x'' \<in> set [''id'', ''x'']
   \<and> ''x'' \<notin> fieldName ` set (model_fields (model (exampleDb (answering ([] :: unit list)) postFields)))
   \<and> findMany exampleUtils (exampleDb (answering ([] :: unit list)) postFields)
        (exampleInput (SelectFields [''id'', ''x''])) exampleWorld
       = (Inl (Error ''Invalid select: the field named x does not exist.''), exampleWorld)
   \<and> sent exampleWorld = []"
proof -
  let ?db = "exampleDb (answering ([] :: unit list)) postFields"
  have s: "fm_select (exampleInput (SelectFields [''id'', ''x''])) = SelectFields [''id'', ''x'']"
    by (simp add: exampleInput_def)
  have m: "''x'' \<in> set [''id'', ''x'']" by simp
  have u: "''x'' \<notin> fieldName ` set (model_fields (model ?db))"
    by (simp add: exampleDb_def postFields_def exampleField_def)
  have b: "\<exists>wh ob lim.
      getWhere exampleUtils (fm_where (exampleInput (SelectFields [''id'', ''x'']))) (tableName (model ?db)) = Inr wh
      \<and> getOrderBy exampleUtils (fm_orderBy (exampleInput (SelectFields [''id'', ''x'']))) (tableName (model ?db)) = Inr ob
      \<and> getLimitOffset exampleUtils (fm_paging (exampleInput (SelectFields [''id'', ''x'']))) = Inr lim"
    by (simp add: exampleUtils_def)
  have f: "find (\<lambda>x. x \<notin> fieldName ` set (model_fields (model ?db))) [''id'', ''x''] = Some ''x''"
    by (simp add: exampleDb_def postFields_def exampleField_def)
  show ?thesis
    using s m u b f findMany_invalid_select [OF s m u, of exampleUtils exampleWorld]
    by (auto simp add: exampleWorld_def)
qed

subsection \<open>\<^verbatim>\<open>execute\<close> when the connection throws\<close>

text \<open>
  Claim C9. When the connection throws on a statement, \<^verbatim>\<open>execute\<close> hands the error hook
  an \<^verbatim>\<open>ExecuteError\<close> that holds what was thrown and the statement (its message is the
  message of the thrown error, or \<^verbatim>\<open>unkown error\<close> when the thrown value is not an
  \<^verbatim>\<open>Error\<close>), and fails itself with a new error whose message is always
  \<^verbatim>\<open>Internal server error.\<close>, the same for every statement and every thrown value. Every
  operation of the database classes reaches the connection through \<^verbatim>\<open>execute\<close> only.
\<close>

theorem execute_transport_failure:
  assumes "connOrTx db (requestOf q cmc) (database w) = (Inl err, c')"
  shows "execute db q cmc w =
     (Inl (Error ''Internal server error.''),
      \<lparr>database = c', sent = sent w @ [requestOf q cmc],
       hookLog = (case errorLogger (loggingOptions db) of
                    None \<Rightarrow> hookLog w
                  | Some hook \<Rightarrow>
                      hook \<lparr>message = (case err of Error msg \<Rightarrow> msg | NonError _ \<Rightarrow> ''unkown error''),
                            originalError = err, query = q\<rparr> (hookLog w))\<rparr>)"
  using assms by (simp add: execute_def errorLoggerOf_def newExecuteError_def split: option.splits)

text \<open>
  With a connection that throws \<^verbatim>\<open>Error('Table post is locked')\<close> on the statement
  \<^verbatim>\<open>DELETE FROM post\<close>, the hook's list receives the wrapped error with the statement, and
  the caller gets \<^verbatim>\<open>Internal server error.\<close>.
\<close>

theorem execute_transport_failure_witness:
  "connOrTx (exampleDb (failing (Error ''Table post is locked'')) postFields
              :: (unit, unit, ExecuteError list) ModelDb)
     (requestOf [Text ''DELETE FROM post''] None) (database exampleWorld)
     = (Inl (Error ''Table post is locked''), ())
   \<and> execute (exampleDb (failing (Error ''Table post is locked'')) postFields
              :: (unit, unit, ExecuteError list) ModelDb)
       [Text ''DELETE FROM post''] None exampleWorld
     = (Inl (Error ''Internal server error.''),
        \<lparr>database = (),
         sent = [\<lparr>req_sql = ''DELETE FROM post'', req_values = [], req_cast = None\<rparr>],
         hookLog = [\<lparr>message = ''Table post is locked'',
                     originalError = Error ''Table post is locked'',
                     query = [Text ''DELETE FROM post'']\<rparr>]\<rparr>)"
proof -
  let ?db = "exampleDb (failing (Error ''Table post is locked'')) postFields
              :: (unit, unit, ExecuteError list) ModelDb"
  have h: "connOrTx ?db (requestOf [Text ''DELETE FROM post''] None) (database exampleWorld)
             = (Inl (Error ''Table post is locked''), ())"
    by (simp add: exampleDb_def failing_def)
  show ?thesis
    using h execute_transport_failure [OF h]
    by (simp add: exampleDb_def exampleWorld_def requestOf_def sqlText_def sqlValues_def)
qed

text \<open>
  The operations pass the failure of \<^const>\<open>execute\<close> on unchanged: once their statement is
  built, a connection that throws makes each of them fail with the fixed error.
\<close>

lemma operations_transport_failure:
  assumes "connOrTx db (requestOf q None) (database w) = (Inl err, c')"
  shows "findManyQuery u db input = Inr q \<Longrightarrow>
           fst (findMany u db input w) = Inl (Error ''Internal server error.'')"
    and "createQuery u db data = Inr q \<Longrightarrow>
           fst (create u db data w) = Inl (Error ''Internal server error.'')"
    and "updateQuery u db data wh = Inr q \<Longrightarrow>
           fst (updateWhere u db data wh w) = Inl (Error ''Internal server error.'')"
    and "getWhere u wh (tableName (model db)) = Inr clause \<Longrightarrow>
           q = [Text ''DELETE FROM ''] @ bt u [tableName (model db)] @ [Text '' ''] @ clause \<Longrightarrow>
           fst (deleteWhere u db wh w) = Inl (Error ''Internal server error.'')"
  using assms
  by (simp_all add: findMany_def create_def updateWhere_def deleteWhere_def executeSelect_def
        execute_fail)

lemma count_transport_failure:
  assumes "countQuery u db wh = Inr q"
    and "connOrTx db (requestOf q (Some [(''ct'', CastBigint)])) (database w) = (Inl err, c')"
  shows "fst (countBigInt u db wh w) = Inl (Error ''Internal server error.'')"
    and "fst (count u db wh w) = Inl (Error ''Internal server error.'')"
  using assms
  by (simp_all add: count_def countBigInt_def executeSelect_def execute_fail)

end
